theory Spec2Isabelle
  imports Main
begin

section \<open>Values of the host language\<close>

text \<open>
  JavaScript numbers that the wrapper only compares and counts (timeouts, retry counts,
  status codes) are integers here; fractional and infinite counts are outside the model.
  The retry interval is the one number the code computes (\<^verbatim>\<open>parseInt(...) * 1000\<close>),
  in double precision: it has its own type, an integer-valued double, an infinity or
  \<^verbatim>\<open>NaN\<close>. The two zeros are one value here.
\<close>

datatype number = Num int | NaN | PosInf | NegInf

text \<open>
  The double nearest to an integer, ties to even: integers up to \<open>2^53\<close> are
  doubles; a longer one keeps its 53 leading bits, rounded; from \<open>2^1024\<close> on the
  result is an infinity.
\<close>

function bitlen :: "int \<Rightarrow> nat" where
  "bitlen n = (if n \<le> 0 then 0 else Suc (bitlen (n div 2)))"
  by pat_completeness auto
termination
  by (relation "measure nat") auto

declare bitlen.simps [simp del]

definition to_double :: "int \<Rightarrow> number" where
  "to_double n =
     (let m = \<bar>n\<bar>
      in if m \<le> 9007199254740992 then Num n
         else
           (let e = bitlen m - 53;
                q = m div 2 ^ e;
                r = m mod 2 ^ e;
                half = 2 ^ (e - 1);
                q' = (if half < r \<or> (r = half \<and> odd q) then q + 1 else q);
                d = q' * 2 ^ e
            in if 2 ^ 1024 \<le> d then (if n < 0 then NegInf else PosInf)
               else Num (if n < 0 then - d else d)))"

text \<open>The product of a number and an integer that is itself a double.\<close>

fun js_times :: "number \<Rightarrow> int \<Rightarrow> number" where
  "js_times (Num n) k = to_double (n * k)"
| "js_times NaN k = NaN"
| "js_times PosInf k = (if k = 0 then NaN else if 0 < k then PosInf else NegInf)"
| "js_times NegInf k = (if k = 0 then NaN else if 0 < k then NegInf else PosInf)"

datatype error = Error string | DOMException string string | TypeError string

fun message :: "error \<Rightarrow> string" where
  "message (Error m) = m"
| "message (DOMException n m) = m"
| "message (TypeError m) = m"

datatype log = Line string | Labelled string error | Thrown error

text \<open>Decimal rendering of a number inside a template string.\<close>

fun digits :: "nat \<Rightarrow> string" where
  "digits n = (if n < 10 then [char_of (48 + n)] else digits (n div 10) @ [char_of (48 + n mod 10)])"

declare digits.simps [simp del]

definition show_int :: "int \<Rightarrow> string" where
  "show_int i = (if i < 0 then CHR ''-'' # digits (nat (- i)) else digits (nat i))"

text \<open>
  \<^verbatim>\<open>parseInt(s, 10)\<close>: leading white space is skipped, one sign is read, then the
  longest run of decimal digits; no digit gives \<^verbatim>\<open>NaN\<close>. The result is the
  double nearest to the integer the digits denote (past 20 significant digits the
  language lets an engine round the digits first; the engines in use do not).
\<close>

definition is_space :: "char \<Rightarrow> bool" where
  "is_space c = (c \<in> set [CHR 0x09, CHR 0x0A, CHR 0x0B, CHR 0x0C, CHR 0x0D, CHR 0x20, CHR 0xA0])"

definition is_digit :: "char \<Rightarrow> bool" where
  "is_digit c = (c \<in> set ''0123456789'')"

definition digit_val :: "char \<Rightarrow> int" where
  "digit_val c = int (of_char c) - 48"

definition parse_digits :: "string \<Rightarrow> number" where
  "parse_digits s =
     (let ds = takeWhile is_digit s
      in if ds = [] then NaN else to_double (foldl (\<lambda>acc c. acc * 10 + digit_val c) 0 ds))"

fun negate :: "number \<Rightarrow> number" where
  "negate (Num n) = Num (- n)"
| "negate NaN = NaN"
| "negate PosInf = NegInf"
| "negate NegInf = PosInf"

definition parseInt :: "string \<Rightarrow> number" where
  "parseInt s =
     (case dropWhile is_space s of
        [] \<Rightarrow> NaN
      | c # cs \<Rightarrow>
          if c = CHR ''-'' then negate (parse_digits cs)
          else if c = CHR ''+'' then parse_digits cs
          else parse_digits (c # cs))"

section \<open>The transport's types\<close>

text \<open>
  The response envelope of the transport. Header names compare without case, and
  \<^verbatim>\<open>get\<close> joins the values of a repeated header, as the Fetch standard's
  \<^verbatim>\<open>Headers\<close> does.
\<close>

record Response =
  status :: int
  headers :: "(string \<times> string) list"
  body :: string

text \<open>
  Modelled from the spec: the \<^verbatim>\<open>ok\<close> predicate of the response envelope, which
  is a type of the transport and not declared in the repository (success iff the status
  is in [200, 300)).
\<close>

definition ok :: "Response \<Rightarrow> bool" where
  "ok r = (200 \<le> status r \<and> status r < 300)"

definition lower :: "char \<Rightarrow> char" where
  "lower c = (let n = (of_char c :: nat) in if 65 \<le> n \<and> n \<le> 90 then char_of (n + 32) else c)"

definition header_values :: "(string \<times> string) list \<Rightarrow> string \<Rightarrow> string list" where
  "header_values hs name = map snd (filter (\<lambda>kv. map lower (fst kv) = map lower name) hs)"

definition headers_has :: "(string \<times> string) list \<Rightarrow> string \<Rightarrow> bool" where
  "headers_has hs name = (header_values hs name \<noteq> [])"

fun join :: "string list \<Rightarrow> string" where
  "join [] = []"
| "join [v] = v"
| "join (v # vs) = v @ '', '' @ join vs"

definition headers_get :: "(string \<times> string) list \<Rightarrow> string \<Rightarrow> string option" where
  "headers_get hs name =
     (let vs = header_values hs name in if vs = [] then None else Some (join vs))"

text \<open>
  \<^verbatim>\<open>RequestOptions\<close>: the per-call overrides (an absent field is \<open>None\<close>) and the
  fields of \<^verbatim>\<open>RequestInit\<close> the wrapper touches. \<open>signal\<close> holds the identity of
  the abort controller whose signal is attached.
\<close>

record RequestOptions =
  opt_timeout :: "int option"
  opt_retries :: "int option"
  opt_retryInterval :: "int option"
  opt_retryOnFail :: "bool option"
  opt_apiUrl :: "string option"
  opt_withHeader :: "bool option"
  http_method :: "string option"
  signal :: "nat option"

text \<open>
  The transport (\<^verbatim>\<open>fetch\<close>) is a parameter: from its own state, the final resource
  and the options it settles with a response or rejects with a reason. A call that an
  abort cancels rejects like any other failed call. Every call settles.
\<close>

type_synonym 'w transport = "'w \<Rightarrow> string \<Rightarrow> RequestOptions \<Rightarrow> (error + Response) \<times> 'w"

section \<open>The runtime\<close>

text \<open>
  What a call leaves behind outside its return value: the state \<open>world\<close> of the
  transport and of the handlers, the timers set and not cleared (identity and delay), the
  transport calls made, the console, and the waits between attempts (the delay handed to
  \<^verbatim>\<open>setTimeout\<close>, as the code computed it). Time itself is not modelled.
\<close>

record 'w env =
  world :: 'w
  next_timer :: nat
  timers :: "(nat \<times> int) list"
  fetched :: "(string \<times> RequestOptions) list"
  console :: "log list"
  sleeps :: "number list"

definition setTimeout :: "int \<Rightarrow> 'w env \<Rightarrow> nat \<times> 'w env" where
  "setTimeout delay e =
     (next_timer e, e\<lparr>next_timer := next_timer e + 1, timers := timers e @ [(next_timer e, delay)]\<rparr>)"

definition clearTimeout :: "nat \<Rightarrow> 'w env \<Rightarrow> 'w env" where
  "clearTimeout i e = e\<lparr>timers := filter (\<lambda>t. fst t \<noteq> i) (timers e)\<rparr>"

definition console_error :: "log \<Rightarrow> 'w env \<Rightarrow> 'w env" where
  "console_error l e = e\<lparr>console := console e @ [l]\<rparr>"

text \<open>Awaiting \<^verbatim>\<open>new Promise(resolve => setTimeout(resolve, interval))\<close>.\<close>

definition sleep :: "number \<Rightarrow> 'w env \<Rightarrow> 'w env" where
  "sleep interval e = e\<lparr>next_timer := next_timer e + 1, sleeps := sleeps e @ [interval]\<rparr>"

section \<open>Configuration\<close>

record Config =
  cfg_timeout :: "int option"
  cfg_retries :: "int option"
  cfg_retryInterval :: "int option"
  cfg_retryOnFail :: "bool option"
  cfg_apiUrl :: "string option"
  cfg_withHeader :: "bool option"

text \<open>The private fields of a \<^verbatim>\<open>FetchWrapper\<close> that are set from the configuration.\<close>

record Settings =
  timeout :: int
  retries :: int
  apiUrl :: string
  retryInterval :: int
  retryOnFail :: bool

text \<open>\<^verbatim>\<open>x || d\<close> on an optional number and on an optional string.\<close>

definition or_number :: "int option \<Rightarrow> int \<Rightarrow> int" where
  "or_number x d = (case x of None \<Rightarrow> d | Some n \<Rightarrow> if n = 0 then d else n)"

definition or_string :: "string option \<Rightarrow> string \<Rightarrow> string" where
  "or_string x d = (case x of None \<Rightarrow> d | Some s \<Rightarrow> if s = [] then d else s)"

section \<open>The interceptor chain\<close>

text \<open>
  \<^verbatim>\<open>InterceptorManager\<close> as \<^verbatim>\<open>src/index.ts\<close> calls it (one argument to
  \<^verbatim>\<open>runHandlers\<close>, the error alone to \<^verbatim>\<open>rejected\<close>). A handler
  reads and writes the world and returns or throws; \<open>None\<close> is an absent handler.
\<close>

record ('v, 'r, 'w) Interceptor =
  fulfilled :: "('v \<Rightarrow> 'w \<Rightarrow> (error + 'v) \<times> 'w) option"
  rejected :: "(error \<Rightarrow> 'w \<Rightarrow> (error + 'r) \<times> 'w) option"

record ('v, 'r, 'w) InterceptorManager =
  handlers :: "('v, 'r, 'w) Interceptor list"

definition use ::
  "('v \<Rightarrow> 'w \<Rightarrow> (error + 'v) \<times> 'w) option \<Rightarrow> (error \<Rightarrow> 'w \<Rightarrow> (error + 'r) \<times> 'w) option \<Rightarrow>
   ('v, 'r, 'w) InterceptorManager \<Rightarrow> ('v, 'r, 'w) InterceptorManager" where
  "use f r m = m\<lparr>handlers := handlers m @ [\<lparr>fulfilled = f, rejected = r\<rparr>]\<rparr>"

text \<open>The \<^verbatim>\<open>for ... of this.handlers\<close> loop of \<^verbatim>\<open>runHandlers\<close>.\<close>

fun run :: "('v, 'r, 'w) Interceptor list \<Rightarrow> 'v \<Rightarrow> 'w \<Rightarrow> (error + 'v) \<times> 'w" where
  "run [] val w = (Inr val, w)"
| "run (h # hs) val w =
     (case fulfilled h of
        None \<Rightarrow> run hs val w
      | Some f \<Rightarrow>
          (case f val w of
             (Inr val', w') \<Rightarrow> run hs val' w'
           | (Inl error, w') \<Rightarrow>
               (case rejected h of
                  None \<Rightarrow> (Inl error, w')
                | Some r \<Rightarrow>
                    (case r error w' of
                       (Inr _, w'') \<Rightarrow> (Inl error, w'')
                     | (Inl error', w'') \<Rightarrow> (Inl error', w'')))))"

definition runHandlers ::
  "('v, 'r, 'w) InterceptorManager \<Rightarrow> 'v \<Rightarrow> 'w \<Rightarrow> (error + 'v) \<times> 'w" where
  "runHandlers m val w = run (handlers m) val w"

section \<open>The wrapper of \<^verbatim>\<open>src/index.ts\<close>\<close>

record ('r, 'w) FetchWrapper = Settings +
  interceptors_request :: "(string \<times> RequestOptions, 'r, 'w) InterceptorManager"
  interceptors_response :: "(Response, 'r, 'w) InterceptorManager"

definition constructor :: "Config \<Rightarrow> ('r, 'w) FetchWrapper" where
  "constructor config =
     \<lparr>timeout = or_number (cfg_timeout config) 5000,
      retries = or_number (cfg_retries config) 3,
      apiUrl = or_string (cfg_apiUrl config) [],
      retryInterval = or_number (cfg_retryInterval config) 1000,
      retryOnFail = (case cfg_retryOnFail config of Some b \<Rightarrow> b | None \<Rightarrow> False),
      interceptors_request = \<lparr>handlers = []\<rparr>,
      interceptors_response = \<lparr>handlers = []\<rparr>\<rparr>"

text \<open>
  \<^verbatim>\<open>fetchWithTimeout\<close>. The options object is written in place (it is taken
  to accept the write), so the function returns it next to the result. The abort
  controller of an attempt has the identity of the attempt's timer. The legacy wrapper's
  \<^verbatim>\<open>fetchWithTimeout\<close> is the same text, with the field \<^verbatim>\<open>apiUrl\<close>
  called \<^verbatim>\<open>baseURL\<close> there.
\<close>

definition finalResource :: "'a Settings_scheme \<Rightarrow> string \<Rightarrow> RequestOptions \<Rightarrow> string" where
  "finalResource fw resource options =
     (case opt_apiUrl options of None \<Rightarrow> apiUrl fw @ resource | Some u \<Rightarrow> u @ resource)"

definition fetchWithTimeout ::
  "'w transport \<Rightarrow> 'a Settings_scheme \<Rightarrow> string \<Rightarrow> RequestOptions \<Rightarrow> 'w env \<Rightarrow>
   (error + Response) \<times> RequestOptions \<times> 'w env" where
  "fetchWithTimeout fetch fw resource options e =
     (let t = (case opt_timeout options of Some t \<Rightarrow> t | None \<Rightarrow> timeout fw);
          (timer, e1) = setTimeout t e;
          options1 = options\<lparr>signal := Some timer\<rparr>;
          (outcome, w) = fetch (world e1) (finalResource fw resource options) options1;
          e2 = e1\<lparr>world := w,
                 fetched := fetched e1 @ [(finalResource fw resource options, options1)]\<rparr>
      in case outcome of
           Inr response \<Rightarrow> (Inr response, options1, clearTimeout timer e2)
         | Inl error \<Rightarrow> (Inl (Error ''Request timed out''), options1, e2))"

text \<open>
  The body of the \<^verbatim>\<open>try\<close> inside the loop of \<^verbatim>\<open>retryFetch\<close>: one guarded
  attempt and the status check. It returns the interval as the check leaves it.
\<close>

definition attempt ::
  "'w transport \<Rightarrow> 'a Settings_scheme \<Rightarrow> string \<Rightarrow> number \<Rightarrow> RequestOptions \<Rightarrow> 'w env \<Rightarrow>
   (error + Response) \<times> number \<times> RequestOptions \<times> 'w env" where
  "attempt fetch fw resource interval options e =
     (case fetchWithTimeout fetch fw resource options e of
        (Inl error, options', e') \<Rightarrow> (Inl error, interval, options', e')
      | (Inr response, options', e') \<Rightarrow>
          if \<not> ok response then
            (let st = status response
             in if st \<ge> 500 \<or> st = 429 then
                  (let interval' =
                         (if st = 429 \<and> headers_has (headers response) ''Retry-After''
                          then js_times (case headers_get (headers response) ''Retry-After'' of
                                        Some v \<Rightarrow> parseInt v | None \<Rightarrow> NaN) 1000
                          else interval)
                   in (Inl (Error (''Network response was not ok: '' @ show_int st)),
                       interval', options', e'))
                else (Inr response, interval, options', e'))
          else (Inr response, interval, options', e'))"

text \<open>
  The \<^verbatim>\<open>for (let i = 0; i <= retries; i++)\<close> loop with its \<^verbatim>\<open>catch\<close>, over the
  body of the \<^verbatim>\<open>try\<close>.
\<close>

function retry_loop ::
  "(number \<Rightarrow> RequestOptions \<Rightarrow> 'w env \<Rightarrow> (error + Response) \<times> number \<times> RequestOptions \<times> 'w env) \<Rightarrow>
   int \<Rightarrow> int \<Rightarrow> number \<Rightarrow> RequestOptions \<Rightarrow> 'w env \<Rightarrow>
   (error + Response) \<times> RequestOptions \<times> 'w env" where
  "retry_loop try_body limit i interval options e =
     (if i \<le> limit then
        (case try_body interval options e of
           (Inr response, interval', options', e') \<Rightarrow> (Inr response, options', e')
         | (Inl error, interval', options', e') \<Rightarrow>
             (let e'' = console_error
                          (Line (''Attempt '' @ show_int (i + 1) @ '' failed: '' @ message error)) e'
              in if i < limit
                 then retry_loop try_body limit (i + 1) interval' options' (sleep interval' e'')
                 else (Inl error, options', e'')))
      else (Inl (Error ''Maximum retries exceeded''), options, e))"
  by pat_completeness auto
termination
  by (relation "measure (\<lambda>(try_body, limit, i, interval, options, e). nat (limit + 1 - i))") auto

declare retry_loop.simps [simp del]

definition retryFetch ::
  "'w transport \<Rightarrow> 'a Settings_scheme \<Rightarrow> string \<Rightarrow> RequestOptions \<Rightarrow> 'w env \<Rightarrow>
   (error + Response) \<times> RequestOptions \<times> 'w env" where
  "retryFetch fetch fw resource options e =
     (let retries = (case opt_retries options of Some n \<Rightarrow> n | None \<Rightarrow> retries fw);
          interval = (case opt_retryInterval options of Some n \<Rightarrow> n | None \<Rightarrow> retryInterval fw)
      in retry_loop (attempt fetch fw resource) retries 0 (Num interval) options e)"

text \<open>The \<^verbatim>\<open>try\<close> block of \<^verbatim>\<open>request\<close>, then \<^verbatim>\<open>request\<close> with its \<^verbatim>\<open>catch\<close>.\<close>

definition request_try ::
  "'w transport \<Rightarrow> ('r, 'w) FetchWrapper \<Rightarrow> bool \<Rightarrow> string \<Rightarrow> RequestOptions \<Rightarrow> 'w env \<Rightarrow>
   (error + Response) \<times> 'w env" where
  "request_try fetch fw retry resource options e =
     (case runHandlers (interceptors_request fw) (resource, options) (world e) of
        (Inl error, w) \<Rightarrow> (Inl error, e\<lparr>world := w\<rparr>)
      | (Inr (resolvedResource, resolvedOptions), w) \<Rightarrow>
          (case (if \<not> retry
                 then fetchWithTimeout fetch fw resolvedResource resolvedOptions (e\<lparr>world := w\<rparr>)
                 else retryFetch fetch fw resolvedResource resolvedOptions (e\<lparr>world := w\<rparr>)) of
             (Inl error, _, e1) \<Rightarrow> (Inl error, e1)
           | (Inr response, _, e1) \<Rightarrow>
               (case runHandlers (interceptors_response fw) response (world e1) of
                  (result, w2) \<Rightarrow> (result, e1\<lparr>world := w2\<rparr>))))"

definition request ::
  "'w transport \<Rightarrow> ('r, 'w) FetchWrapper \<Rightarrow> string \<Rightarrow> RequestOptions \<Rightarrow> 'w env \<Rightarrow>
   (error + Response) \<times> 'w env" where
  "request fetch fw resource options e =
     (let retry = (case opt_retryOnFail options of Some b \<Rightarrow> b | None \<Rightarrow> retryOnFail fw)
      in case request_try fetch fw retry resource options e of
           (Inr response, e') \<Rightarrow> (Inr response, e')
         | (Inl error, e') \<Rightarrow> (Inl error, console_error (Labelled ''Request failed:'' error) e'))"

section \<open>The legacy wrapper (\<^verbatim>\<open>useRequestInterceptor\<close>, \<^verbatim>\<open>useResponseInterceptor\<close>)\<close>

text \<open>
  The earlier \<^verbatim>\<open>FetchWrapper\<close> keeps its interceptors in two arrays of its own. The
  value a \<^verbatim>\<open>rejected\<close> handler returns takes the place of the chain's value, so it
  has the chain's type here.
\<close>

record 'w LegacyFetchWrapper = Settings +
  responseInterceptors :: "(Response, Response, 'w) Interceptor list"
  requestInterceptors :: "(RequestOptions, RequestOptions, 'w) Interceptor list"

definition constructor_legacy :: "Config \<Rightarrow> 'w LegacyFetchWrapper" where
  "constructor_legacy config =
     \<lparr>timeout = or_number (cfg_timeout config) 5000,
      retries = or_number (cfg_retries config) 3,
      apiUrl = or_string (cfg_apiUrl config) [],
      retryInterval = or_number (cfg_retryInterval config) 1000,
      retryOnFail = (case cfg_retryOnFail config of Some b \<Rightarrow> b | None \<Rightarrow> False),
      responseInterceptors = [],
      requestInterceptors = []\<rparr>"

fun applyInterceptors ::
  "'v \<Rightarrow> ('v, 'v, 'w) Interceptor list \<Rightarrow> 'w \<Rightarrow> (error + 'v) \<times> 'w" where
  "applyInterceptors val [] w = (Inr val, w)"
| "applyInterceptors val (interceptor # rest) w =
     (case fulfilled interceptor of
        None \<Rightarrow> applyInterceptors val rest w
      | Some f \<Rightarrow>
          (case f val w of
             (Inr val', w') \<Rightarrow> applyInterceptors val' rest w'
           | (Inl error, w') \<Rightarrow>
               (case rejected interceptor of
                  Some r \<Rightarrow> r error w'
                | None \<Rightarrow> (Inl error, w'))))"

definition attempt_legacy ::
  "'w transport \<Rightarrow> 'a Settings_scheme \<Rightarrow> string \<Rightarrow> number \<Rightarrow> RequestOptions \<Rightarrow> 'w env \<Rightarrow>
   (error + Response) \<times> number \<times> RequestOptions \<times> 'w env" where
  "attempt_legacy fetch fw resource interval options e =
     (case fetchWithTimeout fetch fw resource options e of
        (Inl error, options', e') \<Rightarrow> (Inl error, interval, options', e')
      | (Inr response, options', e') \<Rightarrow>
          if \<not> ok response then
            (let st = status response
             in if st \<ge> 500 then
                  (Inl (Error (''Network response was not ok: '' @ show_int st)),
                   interval, options', e')
                else if st = 429 then
                  (let interval' =
                         (if headers_has (headers response) ''Retry-After''
                          then js_times (case headers_get (headers response) ''Retry-After'' of
                                        Some v \<Rightarrow> parseInt v | None \<Rightarrow> NaN) 1000
                          else interval)
                   in (Inl (Error (''Rate Limit Exceeded: '' @ show_int st)),
                       interval', options', e'))
                else (Inr response, interval, options', e'))
          else (Inr response, interval, options', e'))"

definition retryFetch_legacy ::
  "'w transport \<Rightarrow> 'a Settings_scheme \<Rightarrow> string \<Rightarrow> RequestOptions \<Rightarrow> 'w env \<Rightarrow>
   (error + Response) \<times> RequestOptions \<times> 'w env" where
  "retryFetch_legacy fetch fw resource options e =
     (let retries = (case opt_retries options of Some n \<Rightarrow> n | None \<Rightarrow> retries fw);
          interval = (case opt_retryInterval options of Some n \<Rightarrow> n | None \<Rightarrow> retryInterval fw)
      in retry_loop (attempt_legacy fetch fw resource) retries 0 (Num interval) options e)"

text \<open>
  The \<^verbatim>\<open>catch\<close> block of the legacy \<^verbatim>\<open>request\<close>: the scan of the response
  interceptors for a \<^verbatim>\<open>rejected\<close> handler.
\<close>

fun rejected_scan ::
  "(Response, Response, 'w) Interceptor list \<Rightarrow> error \<Rightarrow> 'w env \<Rightarrow> (error + Response) \<times> 'w env" where
  "rejected_scan [] error e = (Inl error, e)"
| "rejected_scan (interceptor # rest) error e =
     (case rejected interceptor of
        None \<Rightarrow> rejected_scan rest error e
      | Some r \<Rightarrow>
          (case r error (world e) of
             (Inr v, w) \<Rightarrow> (Inr v, e\<lparr>world := w\<rparr>)
           | (Inl newError, w) \<Rightarrow> (Inl newError, console_error (Thrown newError) (e\<lparr>world := w\<rparr>))))"

text \<open>
  The \<^verbatim>\<open>try\<close> block, which the source writes out once for each setting of the retry
  switch, and the legacy \<^verbatim>\<open>request\<close>. The request interceptors run before the
  \<^verbatim>\<open>try\<close>.
\<close>

definition request_try_legacy ::
  "'w transport \<Rightarrow> 'w LegacyFetchWrapper \<Rightarrow> bool \<Rightarrow> string \<Rightarrow> RequestOptions \<Rightarrow> 'w env \<Rightarrow>
   (error + Response) \<times> 'w env" where
  "request_try_legacy fetch fw retry resource options e =
     (case (if \<not> retry then fetchWithTimeout fetch fw resource options e
            else retryFetch_legacy fetch fw resource options e) of
        (Inl error, _, e1) \<Rightarrow> (Inl error, e1)
      | (Inr response, _, e1) \<Rightarrow>
          if \<not> ok response then (Inl (Error ''Network response was not ok''), e1)
          else (case applyInterceptors response (responseInterceptors fw) (world e1) of
                  (result, w) \<Rightarrow> (result, e1\<lparr>world := w\<rparr>)))"

definition request_legacy ::
  "'w transport \<Rightarrow> 'w LegacyFetchWrapper \<Rightarrow> string \<Rightarrow> RequestOptions \<Rightarrow> 'w env \<Rightarrow>
   (error + Response) \<times> 'w env" where
  "request_legacy fetch fw resource options e =
     (let retry = (case opt_retryOnFail options of Some b \<Rightarrow> b | None \<Rightarrow> retryOnFail fw)
      in case applyInterceptors options (requestInterceptors fw) (world e) of
           (Inl error, w) \<Rightarrow> (Inl error, e\<lparr>world := w\<rparr>)
         | (Inr options1, w) \<Rightarrow>
             (case request_try_legacy fetch fw retry resource options1 (e\<lparr>world := w\<rparr>) of
                (Inr response, e1) \<Rightarrow> (Inr response, e1)
              | (Inl error, e1) \<Rightarrow> rejected_scan (responseInterceptors fw) error e1))"

section \<open>Collaborators for concrete runs\<close>

text \<open>
  A transport without state that settles every call the same way, a scripted transport
  whose state counts the calls (the k-th call gets the k-th outcome, later calls a plain
  200), a runtime in which nothing has happened yet, and options with no field set.
\<close>

definition response :: "int \<Rightarrow> (string \<times> string) list \<Rightarrow> Response" where
  "response st hs = \<lparr>status = st, headers = hs, body = []\<rparr>"

definition always :: "error + Response \<Rightarrow> 'w transport" where
  "always outcome w url options = (outcome, w)"

definition scripted :: "(error + Response) list \<Rightarrow> nat transport" where
  "scripted outcomes k url options =
     (if k < length outcomes then outcomes ! k else Inr (response 200 []), Suc k)"

definition fresh :: "'w \<Rightarrow> 'w env" where
  "fresh w = \<lparr>world = w, next_timer = 0, timers = [], fetched = [], console = [], sleeps = []\<rparr>"

definition no_options :: RequestOptions where
  "no_options =
     \<lparr>opt_timeout = None, opt_retries = None, opt_retryInterval = None, opt_retryOnFail = None,
      opt_apiUrl = None, opt_withHeader = None, http_method = None, signal = None\<rparr>"

definition no_config :: Config where
  "no_config =
     \<lparr>cfg_timeout = None, cfg_retries = None, cfg_retryInterval = None, cfg_retryOnFail = None,
      cfg_apiUrl = None, cfg_withHeader = None\<rparr>"

text \<open>A \<^verbatim>\<open>fulfilled\<close> handler that appends its tag to the list it is given.\<close>

definition append_tag :: "'a \<Rightarrow> 'a list \<Rightarrow> 'w \<Rightarrow> (error + 'a list) \<times> 'w" where
  "append_tag t tags w = (Inr (tags @ [t]), w)"

section \<open>Facts about the interceptor chain\<close>

lemma run_append:
  "run (xs @ ys) val w =
     (case run xs val w of (Inl error, w') \<Rightarrow> (Inl error, w') | (Inr val', w') \<Rightarrow> run ys val' w')"
  by (induction xs arbitrary: val w) (auto split: option.splits prod.splits sum.splits)

lemma run_tags:
  "run (map (\<lambda>t. \<lparr>fulfilled = Some (append_tag t), rejected = None\<rparr>) ts) val w =
     (Inr (val @ ts), w)"
  by (induction ts arbitrary: val) (simp_all add: append_tag_def)

lemma handlers_foldl_use:
  "handlers (foldl (\<lambda>m t. use (Some (append_tag t)) None m) m ts) =
     handlers m @ map (\<lambda>t. \<lparr>fulfilled = Some (append_tag t), rejected = None\<rparr>) ts"
  by (induction ts arbitrary: m) (simp_all add: use_def)

lemma runHandlers_tags:
  "runHandlers (foldl (\<lambda>m t. use (Some (append_tag t)) None m) \<lparr>handlers = []\<rparr> ts) tags w =
     (Inr (tags @ ts), w)"
  by (simp add: runHandlers_def handlers_foldl_use run_tags)

section \<open>Facts about the timeout guard\<close>

lemma fetchWithTimeout_result:
  "fst (fetchWithTimeout fetch fw resource options e) =
     (case fst (fetch (world e) (finalResource fw resource options)
                  (options\<lparr>signal := Some (next_timer e)\<rparr>)) of
        Inl reason \<Rightarrow> Inl (Error ''Request timed out'')
      | Inr r \<Rightarrow> Inr r)"
  by (auto simp add: fetchWithTimeout_def setTimeout_def Let_def split: prod.splits sum.splits)

lemma fetchWithTimeout_options:
  "fst (snd (fetchWithTimeout fetch fw resource options e)) =
     options\<lparr>signal := Some (next_timer e)\<rparr>"
  by (auto simp add: fetchWithTimeout_def setTimeout_def Let_def split: prod.splits sum.splits)

lemma fetchWithTimeout_fetched:
  "fetched (snd (snd (fetchWithTimeout fetch fw resource options e))) =
     fetched e @ [(finalResource fw resource options, options\<lparr>signal := Some (next_timer e)\<rparr>)]"
  by (auto simp add: fetchWithTimeout_def setTimeout_def clearTimeout_def Let_def
      split: prod.splits sum.splits)

lemma fetchWithTimeout_console:
  "console (snd (snd (fetchWithTimeout fetch fw resource options e))) = console e"
  by (auto simp add: fetchWithTimeout_def setTimeout_def clearTimeout_def Let_def
      split: prod.splits sum.splits)

lemma fetchWithTimeout_sleeps:
  "sleeps (snd (snd (fetchWithTimeout fetch fw resource options e))) = sleeps e"
  by (auto simp add: fetchWithTimeout_def setTimeout_def clearTimeout_def Let_def
      split: prod.splits sum.splits)

lemma fetchWithTimeout_world:
  "world (snd (snd (fetchWithTimeout fetch fw resource options e))) =
     snd (fetch (world e) (finalResource fw resource options)
            (options\<lparr>signal := Some (next_timer e)\<rparr>))"
  by (auto simp add: fetchWithTimeout_def setTimeout_def clearTimeout_def Let_def
      split: prod.splits sum.splits)

lemma fetchWithTimeout_timers:
  "timers (snd (snd (fetchWithTimeout fetch fw resource options e))) =
     (case fst (fetch (world e) (finalResource fw resource options)
                  (options\<lparr>signal := Some (next_timer e)\<rparr>)) of
        Inl reason \<Rightarrow>
          timers e @ [(next_timer e, case opt_timeout options of Some t \<Rightarrow> t | None \<Rightarrow> timeout fw)]
      | Inr r \<Rightarrow> filter (\<lambda>t. fst t \<noteq> next_timer e) (timers e))"
  by (auto simp add: fetchWithTimeout_def setTimeout_def clearTimeout_def Let_def
      split: prod.splits sum.splits)

section \<open>Facts about the retry loop\<close>

lemma retry_loop_over:
  "limit < i \<Longrightarrow>
   retry_loop try_body limit i interval options e =
     (Inl (Error ''Maximum retries exceeded''), options, e)"
  by (subst retry_loop.simps) simp

lemma retry_loop_return:
  "i \<le> limit \<Longrightarrow> try_body interval options e = (Inr r, interval', options', e') \<Longrightarrow>
   retry_loop try_body limit i interval options e = (Inr r, options', e')"
  by (subst retry_loop.simps) simp

lemma retry_loop_step:
  "i < limit \<Longrightarrow> try_body interval options e = (Inl error, interval', options', e') \<Longrightarrow>
   retry_loop try_body limit i interval options e =
     retry_loop try_body limit (i + 1) interval' options'
       (sleep interval'
          (console_error (Line (''Attempt '' @ show_int (i + 1) @ '' failed: '' @ message error)) e'))"
  by (subst retry_loop.simps) (simp add: Let_def)

lemma retry_loop_last:
  "try_body interval options e = (Inl error, interval', options', e') \<Longrightarrow>
   retry_loop try_body limit limit interval options e =
     (Inl error, options',
      console_error (Line (''Attempt '' @ show_int (limit + 1) @ '' failed: '' @ message error)) e')"
  by (subst retry_loop.simps) (simp add: Let_def)

lemma attempt_always_fails:
  assumes "\<forall>w u opts. case fst (fetch w u opts) of Inl reason \<Rightarrow> True
                              | Inr r \<Rightarrow> 500 \<le> status r \<or> status r = 429"
  shows "\<exists>m interval' options' e'.
           attempt fetch fw resource interval options e = (Inl (Error m), interval', options', e') \<and>
           length (fetched e') = length (fetched e) + 1 \<and>
           console e' = console e \<and> sleeps e' = sleeps e \<and>
           (m = ''Request timed out'' \<or>
            (\<exists>st. (500 \<le> st \<or> st = 429) \<and> m = ''Network response was not ok: '' @ show_int st))"
proof -
  obtain x options' e' where run: "fetchWithTimeout fetch fw resource options e = (x, options', e')"
    by (cases "fetchWithTimeout fetch fw resource options e") auto
  have e': "length (fetched e') = length (fetched e) + 1" "console e' = console e"
    "sleeps e' = sleeps e"
    using fetchWithTimeout_fetched [of fetch fw resource options e]
      fetchWithTimeout_console [of fetch fw resource options e]
      fetchWithTimeout_sleeps [of fetch fw resource options e] run by simp_all
  have x: "x = (case fst (fetch (world e) (finalResource fw resource options)
                  (options\<lparr>signal := Some (next_timer e)\<rparr>)) of
        Inl reason \<Rightarrow> Inl (Error ''Request timed out'') | Inr r \<Rightarrow> Inr r)"
    using fetchWithTimeout_result [of fetch fw resource options e] run by simp
  show ?thesis
  proof (cases x)
    case (Inl error)
    then have "error = Error ''Request timed out''"
      using x by (simp split: sum.splits)
    then show ?thesis using run Inl e' by (simp add: attempt_def)
  next
    case (Inr r)
    then have "fst (fetch (world e) (finalResource fw resource options)
                  (options\<lparr>signal := Some (next_timer e)\<rparr>)) = Inr r"
      using x by (simp split: sum.splits)
    then have st: "500 \<le> status r \<or> status r = 429"
      using assms [rule_format, of "world e" "finalResource fw resource options"
          "options\<lparr>signal := Some (next_timer e)\<rparr>"] by simp
    then have "\<not> ok r" by (auto simp add: ok_def)
    then show ?thesis using run Inr e' st by (auto simp add: attempt_def Let_def)
  qed
qed

lemma retry_loop_exhausts:
  assumes body: "\<And>interval options e. \<exists>m interval' options' e'.
           try_body interval options e = (Inl (Error m), interval', options', e') \<and>
           length (fetched e') = length (fetched e) + 1 \<and>
           console e' = console e \<and> sleeps e' = sleeps e \<and> P m"
  shows "i \<le> limit \<Longrightarrow> k = nat (limit - i) \<Longrightarrow>
         \<exists>msgs options' e'.
           retry_loop try_body limit i interval options e = (Inl (Error (last msgs)), options', e') \<and>
           length msgs = k + 1 \<and> (\<forall>m \<in> set msgs. P m) \<and>
           length (fetched e') = length (fetched e) + k + 1 \<and>
           length (sleeps e') = length (sleeps e) + k \<and>
           console e' = console e @
             map (\<lambda>(j, m). Line (''Attempt '' @ show_int j @ '' failed: '' @ m))
               (zip [i + 1 .. limit + 1] msgs)"
proof (induction k arbitrary: i interval options e)
  case 0
  then have i: "i = limit" by simp
  obtain m interval' options' e' where
    b: "try_body interval options e = (Inl (Error m), interval', options', e')"
      "length (fetched e') = length (fetched e) + 1" "console e' = console e"
      "sleeps e' = sleeps e" "P m"
    using body [of interval options e] by blast
  have "retry_loop try_body limit i interval options e =
          (Inl (Error m), options',
           console_error (Line (''Attempt '' @ show_int (limit + 1) @ '' failed: '' @ m)) e')"
    using retry_loop_last [where try_body = try_body and interval = interval and options = options
        and e = e and limit = limit, OF b(1)] i by simp
  then show ?case
    using b 0 by (intro exI [of _ "[m]"] exI [of _ options']
        exI [of _ "console_error (Line (''Attempt '' @ show_int (limit + 1) @ '' failed: '' @ m)) e'"])
      (simp add: console_error_def i)
next
  case (Suc k)
  then have i: "i < limit" and k: "k = nat (limit - (i + 1))" "i + 1 \<le> limit" by simp_all
  obtain m interval' options' e' where
    b: "try_body interval options e = (Inl (Error m), interval', options', e')"
      "length (fetched e') = length (fetched e) + 1" "console e' = console e"
      "sleeps e' = sleeps e" "P m"
    using body [of interval options e] by blast
  let ?e = "sleep interval'
              (console_error (Line (''Attempt '' @ show_int (i + 1) @ '' failed: '' @ m)) e')"
  have step: "retry_loop try_body limit i interval options e =
          retry_loop try_body limit (i + 1) interval' options' ?e"
    using retry_loop_step [where try_body = try_body and interval = interval and options = options
        and e = e, OF i b(1)] by simp
  obtain msgs options'' e'' where
    ih: "retry_loop try_body limit (i + 1) interval' options' ?e =
           (Inl (Error (last msgs)), options'', e'')"
      "length msgs = k + 1" "\<forall>m \<in> set msgs. P m"
      "length (fetched e'') = length (fetched ?e) + k + 1"
      "length (sleeps e'') = length (sleeps ?e) + k"
      "console e'' = console ?e @
             map (\<lambda>(j, m). Line (''Attempt '' @ show_int j @ '' failed: '' @ m))
               (zip [i + 1 + 1 .. limit + 1] msgs)"
    using Suc.IH [OF k(2) k(1), of interval' options' ?e] by blast
  have ne: "msgs \<noteq> []" using ih(2) by auto
  have upto: "[i + 1 .. limit + 1] = (i + 1) # [i + 1 + 1 .. limit + 1]"
    using i by (simp add: upto_rec1)
  show ?case
    using step ih b ne
    by (intro exI [of _ "m # msgs"] exI [of _ options''] exI [of _ e''])
      (simp add: upto sleep_def console_error_def)
qed

lemma to_double_exact:
  "\<bar>n\<bar> \<le> 2 ^ 53 \<Longrightarrow> to_double n = Num n"
  by (simp add: to_double_def)

lemma js_times_exact:
  "x = Num h \<Longrightarrow> \<bar>h * k\<bar> \<le> 2 ^ 53 \<Longrightarrow> js_times x k = Num (h * k)"
  by (simp add: to_double_exact)

lemma retry_after_rounds_to_double:
  "parseInt ''9007199254740993'' = Num 9007199254740992 \<and>
   js_times (parseInt ''72057594037929'') 1000 = Num 72057594037928992"
  by code_simp

lemma attempt_throws:
  "fetchWithTimeout fetch fw resource options e = (Inl error, options', e') \<Longrightarrow>
   attempt fetch fw resource interval options e = (Inl error, interval, options', e')"
  by (simp add: attempt_def)

lemma headers_has_get:
  "headers_has hs name = (headers_get hs name \<noteq> None)"
  by (simp add: headers_has_def headers_get_def Let_def)

lemma attempt_retryable:
  "fetchWithTimeout fetch fw resource options e = (Inr r, options', e') \<Longrightarrow>
   500 \<le> status r \<or> status r = 429 \<Longrightarrow>
   attempt fetch fw resource interval options e =
     (Inl (Error (''Network response was not ok: '' @ show_int (status r))),
      (if status r = 429
       then (case headers_get (headers r) ''Retry-After'' of
               Some v \<Rightarrow> js_times (parseInt v) 1000 | None \<Rightarrow> interval)
       else interval),
      options', e')"
  by (auto simp add: attempt_def ok_def Let_def headers_has_get split: option.splits)

lemma attempt_returns:
  "fetchWithTimeout fetch fw resource options e = (Inr r, options', e') \<Longrightarrow>
   status r < 500 \<Longrightarrow> status r \<noteq> 429 \<Longrightarrow>
   attempt fetch fw resource interval options e = (Inr r, interval, options', e')"
  by (auto simp add: attempt_def ok_def Let_def)

lemma attempt_sleeps:
  "attempt fetch fw resource interval options e = (x, interval', options', e') \<Longrightarrow>
   sleeps e' = sleeps e"
  using fetchWithTimeout_sleeps [of fetch fw resource options e]
  by (cases "fetchWithTimeout fetch fw resource options e")
    (auto simp add: attempt_def Let_def split: sum.splits if_splits)

lemma retry_loop_sleeps_prefix:
  assumes body: "\<And>interval options e x interval' options' e'.
    try_body interval options e = (x, interval', options', e') \<Longrightarrow> sleeps e' = sleeps e"
  shows "\<exists>ws. sleeps (snd (snd (retry_loop try_body limit i interval options e))) = sleeps e @ ws"
proof (induction "nat (limit + 1 - i)" arbitrary: i interval options e)
  case 0
  then have "limit < i" by simp
  then show ?case by (simp add: retry_loop_over)
next
  case (Suc k)
  then have le: "i \<le> limit" by simp
  obtain x interval' options' e' where b: "try_body interval options e = (x, interval', options', e')"
    by (cases "try_body interval options e") auto
  note s = body [OF b]
  show ?case
  proof (cases x)
    case (Inr r)
    then show ?thesis using retry_loop_return [OF le, of try_body interval options e r] b s by simp
  next
    case (Inl error)
    show ?thesis
    proof (cases "i < limit")
      case True
      let ?e = "sleep interval'
          (console_error (Line (''Attempt '' @ show_int (i + 1) @ '' failed: '' @ message error)) e')"
      have "retry_loop try_body limit i interval options e =
              retry_loop try_body limit (i + 1) interval' options' ?e"
        using retry_loop_step [where try_body = try_body and interval = interval
            and options = options and e = e, OF True] b Inl by simp
      moreover have "\<exists>ws. sleeps (snd (snd (retry_loop try_body limit (i + 1) interval' options' ?e))) =
          sleeps ?e @ ws"
        using Suc.hyps(2) by (intro Suc.hyps(1)) simp
      ultimately show ?thesis using s by (auto simp add: sleep_def console_error_def)
    next
      case False
      then have "i = limit" using le by simp
      then show ?thesis
        using retry_loop_last [where try_body = try_body and interval = interval
            and options = options and e = e and limit = limit] b Inl s
        by (simp add: console_error_def)
    qed
  qed
qed

lemma retry_loop_first_wait:
  assumes "i < limit"
    and "attempt fetch fw resource interval options e = (Inl error, interval', options', e')"
  shows "\<exists>ws. sleeps (snd (snd (retry_loop (attempt fetch fw resource) limit i interval options e))) =
           sleeps e @ interval' # ws"
proof -
  let ?e = "sleep interval'
      (console_error (Line (''Attempt '' @ show_int (i + 1) @ '' failed: '' @ message error)) e')"
  have "retry_loop (attempt fetch fw resource) limit i interval options e =
          retry_loop (attempt fetch fw resource) limit (i + 1) interval' options' ?e"
    by (rule retry_loop_step) (rule assms)+
  moreover obtain ws where
    "sleeps (snd (snd (retry_loop (attempt fetch fw resource) limit (i + 1) interval' options' ?e))) =
       sleeps ?e @ ws"
    using retry_loop_sleeps_prefix [where try_body = "attempt fetch fw resource"] attempt_sleeps
    by blast
  ultimately show ?thesis
    using attempt_sleeps [OF assms(2)] by (simp add: sleep_def console_error_def)
qed

lemma attempt_keeps_interval:
  assumes "\<forall>w u opts. case fst (fetch w u opts) of Inl reason \<Rightarrow> True
             | Inr r \<Rightarrow> status r = 429 \<longrightarrow> headers_get (headers r) ''Retry-After'' = None"
    and "attempt fetch fw resource interval options e = (x, interval', options', e')"
  shows "interval' = interval"
proof -
  obtain y o1 e1 where run: "fetchWithTimeout fetch fw resource options e = (y, o1, e1)"
    by (cases "fetchWithTimeout fetch fw resource options e") auto
  have y: "y = (case fst (fetch (world e) (finalResource fw resource options)
                  (options\<lparr>signal := Some (next_timer e)\<rparr>)) of
        Inl reason \<Rightarrow> Inl (Error ''Request timed out'') | Inr r \<Rightarrow> Inr r)"
    using fetchWithTimeout_result [of fetch fw resource options e] run by simp
  show ?thesis
  proof (cases y)
    case (Inl error)
    then show ?thesis using assms(2) run by (simp add: attempt_def)
  next
    case (Inr r)
    then have "fst (fetch (world e) (finalResource fw resource options)
                  (options\<lparr>signal := Some (next_timer e)\<rparr>)) = Inr r"
      using y by (simp split: sum.splits)
    then have "status r = 429 \<longrightarrow> headers_get (headers r) ''Retry-After'' = None"
      using assms(1) [rule_format, of "world e" "finalResource fw resource options"
          "options\<lparr>signal := Some (next_timer e)\<rparr>"] by simp
    then show ?thesis
      using assms(2) run Inr
      by (auto simp add: attempt_def Let_def headers_has_get split: if_splits)
  qed
qed

lemma retry_loop_waits_constant:
  assumes body: "\<And>interval options e x interval' options' e'.
    try_body interval options e = (x, interval', options', e') \<Longrightarrow>
    sleeps e' = sleeps e \<and> interval' = interval"
  shows "\<exists>ws. sleeps (snd (snd (retry_loop try_body limit i interval options e))) = sleeps e @ ws \<and>
              set ws \<subseteq> {interval}"
proof (induction "nat (limit + 1 - i)" arbitrary: i options e)
  case 0
  then have "limit < i" by simp
  then show ?case by (simp add: retry_loop_over)
next
  case (Suc k)
  then have le: "i \<le> limit" by simp
  obtain x interval' options' e' where b: "try_body interval options e = (x, interval', options', e')"
    by (cases "try_body interval options e") auto
  have s: "sleeps e' = sleeps e" and i': "interval' = interval"
    using body [OF b] by simp_all
  show ?case
  proof (cases x)
    case (Inr r)
    then show ?thesis
      using retry_loop_return [where try_body = try_body and interval = interval
          and options = options and e = e, OF le] b s by simp
  next
    case (Inl error)
    show ?thesis
    proof (cases "i < limit")
      case True
      let ?e = "sleep interval
          (console_error (Line (''Attempt '' @ show_int (i + 1) @ '' failed: '' @ message error)) e')"
      have "retry_loop try_body limit i interval options e =
              retry_loop try_body limit (i + 1) interval options' ?e"
        using retry_loop_step [where try_body = try_body and interval = interval
            and options = options and e = e, OF True] b Inl i' by simp
      moreover have "\<exists>ws. sleeps (snd (snd (retry_loop try_body limit (i + 1) interval options' ?e))) =
          sleeps ?e @ ws \<and> set ws \<subseteq> {interval}"
        using Suc.hyps(2) by (intro Suc.hyps(1)) simp
      ultimately show ?thesis using s by (auto simp add: sleep_def console_error_def)
    next
      case False
      then have "i = limit" using le by simp
      then show ?thesis
        using retry_loop_last [where try_body = try_body and interval = interval
            and options = options and e = e and limit = limit] b Inl s
        by (simp add: console_error_def)
    qed
  qed
qed

lemma retry_loop_interval_kept:
  assumes "\<forall>w u opts. case fst (fetch w u opts) of Inl reason \<Rightarrow> True
             | Inr r \<Rightarrow> status r = 429 \<longrightarrow> headers_get (headers r) ''Retry-After'' = None"
  shows "\<exists>ws. sleeps (snd (snd (retry_loop (attempt fetch fw resource) limit i interval options e))) =
              sleeps e @ ws \<and> set ws \<subseteq> {interval}"
  by (rule retry_loop_waits_constant)
    (use attempt_keeps_interval [OF assms] attempt_sleeps in blast)

lemma fetchWithTimeout_always_rejects:
  "\<exists>options' e'.
     fetchWithTimeout (always (Inl reason)) fw resource options e =
       (Inl (Error ''Request timed out''), options', e') \<and>
     length (fetched e') = length (fetched e) + 1 \<and> sleeps e' = sleeps e"
proof -
  obtain x options' e' where
    run: "fetchWithTimeout (always (Inl reason)) fw resource options e = (x, options', e')"
    by (cases "fetchWithTimeout (always (Inl reason)) fw resource options e") auto
  have "x = Inl (Error ''Request timed out'')"
    using fetchWithTimeout_result [of "always (Inl reason)" fw resource options e] run
    by (simp add: always_def)
  moreover have "length (fetched e') = length (fetched e) + 1" "sleeps e' = sleeps e"
    using fetchWithTimeout_fetched [of "always (Inl reason)" fw resource options e]
      fetchWithTimeout_sleeps [of "always (Inl reason)" fw resource options e] run
    by simp_all
  ultimately show ?thesis using run by simp
qed

lemma retries_zero_override:
  "length (fetched (snd (snd (retryFetch (always (Inl reason)) fw resource
                       (options\<lparr>opt_retries := Some 0\<rparr>) e)))) = length (fetched e) + 1 \<and>
   sleeps (snd (snd (retryFetch (always (Inl reason)) fw resource
                       (options\<lparr>opt_retries := Some 0\<rparr>) e))) = sleeps e"
proof -
  let ?options = "options\<lparr>opt_retries := Some 0\<rparr>"
  obtain options' e' where
    run: "fetchWithTimeout (always (Inl reason)) fw resource ?options e =
            (Inl (Error ''Request timed out''), options', e')"
    and e': "length (fetched e') = length (fetched e) + 1" "sleeps e' = sleeps e"
    using fetchWithTimeout_always_rejects [of reason fw resource ?options e] by blast
  have "retry_loop (attempt (always (Inl reason)) fw resource) 0 0 interval ?options e =
          (Inl (Error ''Request timed out''), options',
           console_error (Line (''Attempt '' @ show_int (0 + 1) @ '' failed: '' @
              message (Error ''Request timed out''))) e')" for interval
    by (rule retry_loop_last) (rule attempt_throws [OF run])
  then show ?thesis
    using e' by (simp add: retryFetch_def console_error_def)
qed

lemma retryInterval_zero_override:
  "sleeps (snd (snd (retryFetch (always (Inl reason)) fw resource
                       (options\<lparr>opt_retries := Some 1, opt_retryInterval := Some 0\<rparr>) e))) =
     sleeps e @ [Num 0]"
proof -
  let ?options = "options\<lparr>opt_retries := Some 1, opt_retryInterval := Some 0\<rparr>"
  let ?body = "attempt (always (Inl reason)) fw resource"
  obtain options1 e1 where
    run1: "fetchWithTimeout (always (Inl reason)) fw resource ?options e =
            (Inl (Error ''Request timed out''), options1, e1)"
    and e1: "sleeps e1 = sleeps e"
    using fetchWithTimeout_always_rejects [of reason fw resource ?options e] by blast
  let ?e1 = "sleep (Num 0) (console_error (Line (''Attempt '' @ show_int (0 + 1) @ '' failed: '' @
              message (Error ''Request timed out''))) e1)"
  obtain options2 e2 where
    run2: "fetchWithTimeout (always (Inl reason)) fw resource options1 ?e1 =
            (Inl (Error ''Request timed out''), options2, e2)"
    and e2: "sleeps e2 = sleeps ?e1"
    using fetchWithTimeout_always_rejects [of reason fw resource options1 ?e1] by blast
  have "retry_loop ?body 1 0 (Num 0) ?options e = retry_loop ?body 1 (0 + 1) (Num 0) options1 ?e1"
    by (rule retry_loop_step) (simp, rule attempt_throws [OF run1])
  also have "\<dots> = (Inl (Error ''Request timed out''), options2,
           console_error (Line (''Attempt '' @ show_int (1 + 1) @ '' failed: '' @
              message (Error ''Request timed out''))) e2)"
    using retry_loop_last [where try_body = ?body and limit = 1 and interval = "Num 0"
        and options = options1 and e = ?e1, OF attempt_throws [OF run2]] by simp
  finally show ?thesis
    using e1 e2 by (simp add: retryFetch_def console_error_def sleep_def)
qed

section \<open>Facts about the two orchestrators\<close>

lemma rejected_scan_none:
  "\<forall>h \<in> set hs. rejected h = None \<Longrightarrow> rejected_scan hs error e = (Inl error, e)"
  by (induction hs) simp_all

lemma rejected_scan_first:
  "\<forall>p \<in> set pre. rejected p = None \<Longrightarrow> rejected h = Some r \<Longrightarrow>
   rejected_scan (pre @ h # post) error e =
     (case r error (world e) of
        (Inr v, w) \<Rightarrow> (Inr v, e\<lparr>world := w\<rparr>)
      | (Inl newError, w) \<Rightarrow> (Inl newError, console_error (Thrown newError) (e\<lparr>world := w\<rparr>)))"
  by (induction pre) simp_all


lemma fetchWithTimeout_always_resolves:
  assumes "\<forall>w u opts. fst (fetch w u opts) = Inr r"
  shows "\<exists>options' e'.
     fetchWithTimeout fetch fw resource options e = (Inr r, options', e') \<and>
     length (fetched e') = length (fetched e) + 1 \<and> sleeps e' = sleeps e \<and> console e' = console e"
proof -
  obtain x options' e' where
    run: "fetchWithTimeout fetch fw resource options e = (x, options', e')"
    by (cases "fetchWithTimeout fetch fw resource options e") auto
  have "x = Inr r"
    using fetchWithTimeout_result [of fetch fw resource options e] run assms by simp
  moreover have "length (fetched e') = length (fetched e) + 1" "sleeps e' = sleeps e"
    "console e' = console e"
    using fetchWithTimeout_fetched [of fetch fw resource options e]
      fetchWithTimeout_sleeps [of fetch fw resource options e]
      fetchWithTimeout_console [of fetch fw resource options e] run
    by simp_all
  ultimately show ?thesis using run by simp
qed

lemma attempt_legacy_returns:
  "fetchWithTimeout fetch fw resource options e = (Inr r, options', e') \<Longrightarrow>
   status r < 500 \<Longrightarrow> status r \<noteq> 429 \<Longrightarrow>
   attempt_legacy fetch fw resource interval options e = (Inr r, interval, options', e')"
  by (auto simp add: attempt_legacy_def ok_def Let_def)

lemma retryFetch_returns_first:
  assumes "0 \<le> (case opt_retries options of Some n \<Rightarrow> n | None \<Rightarrow> retries fw)"
    and "fetchWithTimeout fetch fw resource options e = (Inr r, options', e')"
    and "status r < 500" and "status r \<noteq> 429"
  shows "retryFetch fetch fw resource options e = (Inr r, options', e')"
    and "retryFetch_legacy fetch fw resource options e = (Inr r, options', e')"
  unfolding retryFetch_def retryFetch_legacy_def Let_def
  using assms(1) attempt_returns [OF assms(2-4)] attempt_legacy_returns [OF assms(2-4)]
  by (simp_all add: retry_loop_return)

lemma dispatch_returns:
  assumes "\<forall>w u opts. fst (fetch w u opts) = Inr r"
    and "status r < 500" and "status r \<noteq> 429"
    and "retry \<longrightarrow> 0 \<le> (case opt_retries options of Some n \<Rightarrow> n | None \<Rightarrow> retries fw)"
  shows "\<exists>options' e'.
     (if \<not> retry then fetchWithTimeout fetch fw resource options e
      else retryFetch fetch fw resource options e) = (Inr r, options', e')"
    and "\<exists>options' e'.
     (if \<not> retry then fetchWithTimeout fetch fw resource options e
      else retryFetch_legacy fetch fw resource options e) = (Inr r, options', e')"
  using fetchWithTimeout_always_resolves [OF assms(1), of fw resource options e]
    retryFetch_returns_first [where options = options and fw = fw and fetch = fetch
      and resource = resource and e = e and r = r] assms(2-4)
  by auto

section \<open>Runs that differ in the runtime and in the signal only\<close>

lemma same_but_signal_fields:
  assumes "opts\<lparr>signal := None\<rparr> = opts'\<lparr>signal := None\<rparr>"
  shows "opt_timeout opts = opt_timeout opts'" "opt_retries opts = opt_retries opts'"
    "opt_retryInterval opts = opt_retryInterval opts'" "opt_retryOnFail opts = opt_retryOnFail opts'"
    "opt_apiUrl opts = opt_apiUrl opts'"
  using assms by (cases opts; cases opts'; simp)+

lemma fetchWithTimeout_same_but_signal:
  assumes tr: "\<forall>w w' u opts opts'. opts\<lparr>signal := None\<rparr> = opts'\<lparr>signal := None\<rparr> \<longrightarrow>
                 fst (fetch w u opts) = fst (fetch w' u opts')"
    and eq: "options\<lparr>signal := None\<rparr> = options'\<lparr>signal := None\<rparr>"
  shows "fst (fetchWithTimeout fetch fw resource options e) =
           fst (fetchWithTimeout fetch fw resource options' e')"
    and "(fst (snd (fetchWithTimeout fetch fw resource options e)))\<lparr>signal := None\<rparr> =
         (fst (snd (fetchWithTimeout fetch fw resource options' e')))\<lparr>signal := None\<rparr>"
proof -
  have r: "finalResource fw resource options = finalResource fw resource options'"
    using same_but_signal_fields(5) [OF eq] by (simp add: finalResource_def)
  have "(options\<lparr>signal := Some (next_timer e)\<rparr>)\<lparr>signal := None\<rparr> =
        (options'\<lparr>signal := Some (next_timer e')\<rparr>)\<lparr>signal := None\<rparr>"
    using eq by simp
  then have "fst (fetch (world e) (finalResource fw resource options)
                    (options\<lparr>signal := Some (next_timer e)\<rparr>)) =
             fst (fetch (world e') (finalResource fw resource options)
                    (options'\<lparr>signal := Some (next_timer e')\<rparr>))"
    using tr by blast
  then show "fst (fetchWithTimeout fetch fw resource options e) =
           fst (fetchWithTimeout fetch fw resource options' e')"
    by (simp add: fetchWithTimeout_result r)
  show "(fst (snd (fetchWithTimeout fetch fw resource options e)))\<lparr>signal := None\<rparr> =
         (fst (snd (fetchWithTimeout fetch fw resource options' e')))\<lparr>signal := None\<rparr>"
    using eq by (simp add: fetchWithTimeout_options)
qed

lemma attempt_same_but_signal:
  assumes tr: "\<forall>w w' u opts opts'. opts\<lparr>signal := None\<rparr> = opts'\<lparr>signal := None\<rparr> \<longrightarrow>
                 fst (fetch w u opts) = fst (fetch w' u opts')"
    and eq: "options\<lparr>signal := None\<rparr> = options'\<lparr>signal := None\<rparr>"
    and a: "attempt fetch fw resource interval options e = (x, interval1, options1, e1)"
    and a': "attempt fetch fw resource interval options' e' = (x', interval1', options1', e1')"
  shows "x = x' \<and> interval1 = interval1' \<and>
         options1\<lparr>signal := None\<rparr> = options1'\<lparr>signal := None\<rparr>"
proof -
  obtain y o1 f1 where run: "fetchWithTimeout fetch fw resource options e = (y, o1, f1)"
    by (cases "fetchWithTimeout fetch fw resource options e") auto
  obtain y' o1' f1' where run': "fetchWithTimeout fetch fw resource options' e' = (y', o1', f1')"
    by (cases "fetchWithTimeout fetch fw resource options' e'") auto
  have "y = y'" "o1\<lparr>signal := None\<rparr> = o1'\<lparr>signal := None\<rparr>"
    using fetchWithTimeout_same_but_signal [OF tr eq, of fw resource e e'] run run' by simp_all
  then show ?thesis
    using a a' run run'
    by (auto simp add: attempt_def Let_def split: sum.splits if_splits)
qed

lemma retry_loop_same_but_signal:
  assumes tr: "\<forall>w w' u opts opts'. opts\<lparr>signal := None\<rparr> = opts'\<lparr>signal := None\<rparr> \<longrightarrow>
                 fst (fetch w u opts) = fst (fetch w' u opts')"
  shows "options\<lparr>signal := None\<rparr> = options'\<lparr>signal := None\<rparr> \<Longrightarrow>
         fst (retry_loop (attempt fetch fw resource) limit i interval options e) =
         fst (retry_loop (attempt fetch fw resource) limit i interval options' e')"
proof (induction "nat (limit + 1 - i)" arbitrary: i interval options options' e e')
  case 0
  then have "limit < i" by simp
  then show ?case by (simp add: retry_loop_over)
next
  case (Suc k)
  then have le: "i \<le> limit" by simp
  let ?body = "attempt fetch fw resource"
  obtain x interval1 options1 e1 where
    a: "?body interval options e = (x, interval1, options1, e1)"
    by (cases "?body interval options e") auto
  obtain x' interval1' options1' e1' where
    a': "?body interval options' e' = (x', interval1', options1', e1')"
    by (cases "?body interval options' e'") auto
  have same: "x = x'" "interval1 = interval1'"
    "options1\<lparr>signal := None\<rparr> = options1'\<lparr>signal := None\<rparr>"
    using attempt_same_but_signal [OF tr Suc.prems a a'] by simp_all
  show ?case
  proof (cases x)
    case (Inr r)
    then show ?thesis
      using retry_loop_return [where try_body = ?body and interval = interval
            and options = options and e = e, OF le] a
        retry_loop_return [where try_body = ?body and interval = interval
            and options = options' and e = e', OF le] a' same(1)
      by simp
  next
    case (Inl error)
    show ?thesis
    proof (cases "i < limit")
      case True
      let ?l = "Line (''Attempt '' @ show_int (i + 1) @ '' failed: '' @ message error)"
      have "retry_loop ?body limit i interval options e =
              retry_loop ?body limit (i + 1) interval1 options1 (sleep interval1 (console_error ?l e1))"
        using retry_loop_step [where try_body = ?body and interval = interval
            and options = options and e = e, OF True] a Inl by simp
      moreover have "retry_loop ?body limit i interval options' e' =
              retry_loop ?body limit (i + 1) interval1 options1' (sleep interval1 (console_error ?l e1'))"
        using retry_loop_step [where try_body = ?body and interval = interval
            and options = options' and e = e', OF True] a' Inl same by simp
      moreover have "fst (retry_loop ?body limit (i + 1) interval1 options1
                            (sleep interval1 (console_error ?l e1))) =
                     fst (retry_loop ?body limit (i + 1) interval1 options1'
                            (sleep interval1 (console_error ?l e1')))"
        using Suc.hyps(2) same(3) by (intro Suc.hyps(1)) simp_all
      ultimately show ?thesis by simp
    next
      case False
      then have "i = limit" using le by simp
      then show ?thesis
        using retry_loop_last [where try_body = ?body and interval = interval
            and options = options and e = e and limit = limit] a
          retry_loop_last [where try_body = ?body and interval = interval
            and options = options' and e = e' and limit = limit] a' Inl same
        by simp
    qed
  qed
qed

lemma retryFetch_same_but_signal:
  assumes tr: "\<forall>w w' u opts opts'. opts\<lparr>signal := None\<rparr> = opts'\<lparr>signal := None\<rparr> \<longrightarrow>
                 fst (fetch w u opts) = fst (fetch w' u opts')"
    and eq: "options\<lparr>signal := None\<rparr> = options'\<lparr>signal := None\<rparr>"
  shows "fst (retryFetch fetch fw resource options e) =
         fst (retryFetch fetch fw resource options' e')"
  using retry_loop_same_but_signal [OF tr eq] same_but_signal_fields [OF eq]
  by (simp add: retryFetch_def)

lemma run_pure:
  assumes "\<forall>h \<in> set hs.
      (\<forall>f. fulfilled h = Some f \<longrightarrow> (\<forall>v w w'. fst (f v w) = fst (f v w'))) \<and>
      (\<forall>r. rejected h = Some r \<longrightarrow> (\<forall>error w w'. fst (r error w) = fst (r error w')))"
  shows "fst (run hs val w) = fst (run hs val w')"
  using assms
proof (induction hs arbitrary: val w w')
  case Nil
  then show ?case by simp
next
  case (Cons h hs)
  then have ih: "\<And>val w w'. fst (run hs val w) = fst (run hs val w')" by simp
  show ?case
  proof (cases "fulfilled h")
    case None
    then show ?thesis using ih by simp
  next
    case (Some f)
    then have f: "fst (f val w) = fst (f val w')" using Cons.prems by simp
    obtain x w1 where 1: "f val w = (x, w1)" by (cases "f val w") auto
    obtain x' w1' where 2: "f val w' = (x', w1')" by (cases "f val w'") auto
    have x: "x' = x" using f 1 2 by simp
    show ?thesis
    proof (cases x)
      case (Inr v)
      then show ?thesis using Some 1 2 x ih [of v w1 w1'] by simp
    next
      case (Inl error)
      show ?thesis
      proof (cases "rejected h")
        case None
        then show ?thesis using Some 1 2 x Inl by simp
      next
        case (Some r)
        then have "fst (r error w1) = fst (r error w1')" using Cons.prems by simp
        then show ?thesis
          using Some \<open>fulfilled h = Some f\<close> 1 2 x Inl
          by (cases "r error w1"; cases "r error w1'") (auto split: sum.splits)
      qed
    qed
  qed
qed


lemma run_same_but_signal:
  assumes "\<forall>h \<in> set hs.
      (\<forall>f. fulfilled h = Some f \<longrightarrow>
         (\<forall>u opts opts' w w'. opts\<lparr>signal := None\<rparr> = opts'\<lparr>signal := None\<rparr> \<longrightarrow>
            rel_sum (=) (\<lambda>p q. fst p = fst q \<and> (snd p)\<lparr>signal := None\<rparr> = (snd q)\<lparr>signal := None\<rparr>)
              (fst (f (u, opts) w)) (fst (f (u, opts') w')))) \<and>
      (\<forall>r. rejected h = Some r \<longrightarrow> (\<forall>error w w'. fst (r error w) = fst (r error w')))"
    and "opts\<lparr>signal := None\<rparr> = opts'\<lparr>signal := None\<rparr>"
  shows "rel_sum (=) (\<lambda>p q. fst p = fst q \<and> (snd p)\<lparr>signal := None\<rparr> = (snd q)\<lparr>signal := None\<rparr>)
           (fst (run hs (u, opts) w)) (fst (run hs (u, opts') w'))"
  using assms
proof (induction hs arbitrary: u opts opts' w w')
  case Nil
  then show ?case by simp
next
  case (Cons h hs)
  let ?R = "rel_sum (=) (\<lambda>p q. fst p = fst q \<and> (snd p)\<lparr>signal := None\<rparr> = (snd q)\<lparr>signal := None\<rparr>)"
  have ih: "\<And>u opts opts' w w'. opts\<lparr>signal := None\<rparr> = opts'\<lparr>signal := None\<rparr> \<Longrightarrow>
      ?R (fst (run hs (u, opts) w)) (fst (run hs (u, opts') w'))"
    using Cons.IH Cons.prems(1) by simp
  show ?case
  proof (cases "fulfilled h")
    case None
    then show ?thesis using ih [OF Cons.prems(2)] by simp
  next
    case (Some f)
    obtain x w1 where 1: "f (u, opts) w = (x, w1)" by (cases "f (u, opts) w") auto
    obtain x' w1' where 2: "f (u, opts') w' = (x', w1')" by (cases "f (u, opts') w'") auto
    have "\<forall>u opts opts' w w'. opts\<lparr>signal := None\<rparr> = opts'\<lparr>signal := None\<rparr> \<longrightarrow>
            ?R (fst (f (u, opts) w)) (fst (f (u, opts') w'))"
      using Cons.prems(1) Some by simp
    then have "?R (fst (f (u, opts) w)) (fst (f (u, opts') w'))"
      using Cons.prems(2) by blast
    then have rel: "?R x x'"
      using 1 2 by simp
    show ?thesis
    proof (cases x)
      case (Inr p)
      then obtain p' where x': "x' = Inr p'" and
        pp: "fst p = fst p'" "(snd p)\<lparr>signal := None\<rparr> = (snd p')\<lparr>signal := None\<rparr>"
        using rel by (cases x') auto
      show ?thesis
        using Some 1 2 Inr x' ih [OF pp(2), of "fst p" w1 w1'] pp(1)
        by (cases p; cases p') simp
    next
      case (Inl error)
      then have x': "x' = Inl error" using rel by (cases x') auto
      show ?thesis
      proof (cases "rejected h")
        case None
        then show ?thesis using Some 1 2 Inl x' by simp
      next
        case (Some r)
        then have "fst (r error w1) = fst (r error w1')" using Cons.prems(1) by simp
        then show ?thesis
          using Some \<open>fulfilled h = Some f\<close> 1 2 Inl x'
          by (cases "r error w1"; cases "r error w1'") (auto split: sum.splits)
      qed
    qed
  qed
qed

lemma request_result:
  "fst (request fetch fw resource options e) =
     fst (request_try fetch fw
            (case opt_retryOnFail options of Some b \<Rightarrow> b | None \<Rightarrow> retryOnFail fw)
            resource options e)"
proof -
  obtain x e1 where t: "request_try fetch fw
            (case opt_retryOnFail options of Some b \<Rightarrow> b | None \<Rightarrow> retryOnFail fw)
            resource options e = (x, e1)"
    by (cases "request_try fetch fw
            (case opt_retryOnFail options of Some b \<Rightarrow> b | None \<Rightarrow> retryOnFail fw)
            resource options e") auto
  show ?thesis
    unfolding request_def Let_def t by (cases x) simp_all
qed

section \<open>The claims\<close>

text \<open>
  C1. For every resolved retry count \<open>n \<ge> 0\<close>, when every guarded attempt fails (the
  transport throws, or returns a status \<open>\<ge> 500\<close> or 429), \<^verbatim>\<open>retryFetch\<close> makes
  exactly \<open>n + 1\<close> transport calls, logs the attempts numbered 1 to \<open>n + 1\<close>, waits
  \<open>n\<close> times, and raises the failure of the last attempt; it does not return a response.
\<close>

theorem retryFetch_exhausts_budget:
  assumes "\<forall>w u opts. case fst (fetch w u opts) of Inl reason \<Rightarrow> True
                              | Inr r \<Rightarrow> 500 \<le> status r \<or> status r = 429"
    and "(case opt_retries options of Some n \<Rightarrow> n | None \<Rightarrow> retries fw) = n"
    and "0 \<le> n"
  shows "\<exists>msgs options' e'.
           retryFetch fetch fw resource options e = (Inl (Error (last msgs)), options', e') \<and>
           length msgs = nat n + 1 \<and>
           (\<forall>m \<in> set msgs. m = ''Request timed out'' \<or>
              (\<exists>st. (500 \<le> st \<or> st = 429) \<and> m = ''Network response was not ok: '' @ show_int st)) \<and>
           length (fetched e') = length (fetched e) + nat n + 1 \<and>
           length (sleeps e') = length (sleeps e) + nat n \<and>
           console e' = console e @
             map (\<lambda>(j, m). Line (''Attempt '' @ show_int j @ '' failed: '' @ m)) (zip [1 .. n + 1] msgs)"
proof -
  have "\<exists>msgs options' e'.
           retry_loop (attempt fetch fw resource) n 0
             (Num (case opt_retryInterval options of Some n \<Rightarrow> n | None \<Rightarrow> retryInterval fw))
             options e = (Inl (Error (last msgs)), options', e') \<and>
           length msgs = nat n + 1 \<and>
           (\<forall>m \<in> set msgs. m = ''Request timed out'' \<or>
              (\<exists>st. (500 \<le> st \<or> st = 429) \<and> m = ''Network response was not ok: '' @ show_int st)) \<and>
           length (fetched e') = length (fetched e) + nat n + 1 \<and>
           length (sleeps e') = length (sleeps e) + nat n \<and>
           console e' = console e @
             map (\<lambda>(j, m). Line (''Attempt '' @ show_int j @ '' failed: '' @ m))
               (zip [0 + 1 .. n + 1] msgs)"
    by (rule retry_loop_exhausts [where try_body = "attempt fetch fw resource"])
      (use assms(3) attempt_always_fails [OF assms(1)] in simp_all)
  then show ?thesis
    using assms(2) by (simp add: retryFetch_def Let_def)
qed

theorem retryFetch_exhausts_budget_witness:
  "\<exists>msgs options' e'.
     retryFetch (always (Inr (response 503 []))) (constructor no_config :: (unit, unit) FetchWrapper)
       ''/a'' (no_options\<lparr>opt_retries := Some 2\<rparr>) (fresh ()) = (Inl (Error (last msgs)), options', e') \<and>
     length msgs = 3 \<and> length (fetched e') = 3 \<and> length (sleeps e') = 2"
proof -
  have h1: "\<forall>w u opts. case fst (always (Inr (response 503 [])) w u opts) of Inl reason \<Rightarrow> True
                              | Inr r \<Rightarrow> 500 \<le> status r \<or> status r = 429"
    by (simp add: always_def response_def)
  have h2: "(case opt_retries (no_options\<lparr>opt_retries := Some 2\<rparr>) of Some n \<Rightarrow> n
             | None \<Rightarrow> retries (constructor no_config :: (unit, unit) FetchWrapper)) = 2"
    by simp
  have h3: "(0::int) \<le> 2" by simp
  from retryFetch_exhausts_budget [OF h1 h2 h3, of "''/a''" "fresh ()"]
  obtain msgs options' e' where
    r: "retryFetch (always (Inr (response 503 []))) (constructor no_config :: (unit, unit) FetchWrapper)
       ''/a'' (no_options\<lparr>opt_retries := Some 2\<rparr>) (fresh ()) = (Inl (Error (last msgs)), options', e')"
    and l: "length msgs = nat 2 + 1"
    and f: "length (fetched e') = length (fetched (fresh () :: unit env)) + nat 2 + 1"
    and s: "length (sleeps e') = length (sleeps (fresh () :: unit env)) + nat 2"
    by blast
  have "length msgs = 3" "length (fetched e') = 3" "length (sleeps e') = 2"
    using l f s by (simp_all add: fresh_def)
  with r show ?thesis by blast
qed

text \<open>
  C5. Whatever reason the transport rejects with (an abort or anything else),
  \<^verbatim>\<open>fetchWithTimeout\<close> raises \<^verbatim>\<open>Error('Request timed out')\<close> and nothing else;
  when the transport settles with a response, that response is returned as it is and the
  timer of the attempt is no longer set.
\<close>

theorem guard_reports_only_timeout:
  assumes "fetch (world e) (finalResource fw resource options)
             (options\<lparr>signal := Some (next_timer e)\<rparr>) = (outcome, w)"
  shows "(case outcome of
            Inl reason \<Rightarrow>
              fst (fetchWithTimeout fetch fw resource options e) = Inl (Error ''Request timed out'')
          | Inr r \<Rightarrow>
              fst (fetchWithTimeout fetch fw resource options e) = Inr r \<and>
              next_timer e \<notin> fst ` set (timers (snd (snd (fetchWithTimeout fetch fw resource options e)))))"
  using assms by (auto simp add: fetchWithTimeout_result fetchWithTimeout_timers split: sum.splits)

theorem guard_reports_only_timeout_witness:
  "fst (fetchWithTimeout (always (Inl (TypeError ''Failed to fetch''))) (constructor no_config :: (unit, unit) FetchWrapper)
          ''/a'' no_options (fresh ())) = Inl (Error ''Request timed out'') \<and>
   fst (fetchWithTimeout (always (Inl (DOMException ''AbortError'' ''The operation was aborted.''))) (constructor no_config :: (unit, unit) FetchWrapper)
          ''/a'' no_options (fresh ())) = Inl (Error ''Request timed out'') \<and>
   fst (fetchWithTimeout (always (Inr (response 200 []))) (constructor no_config :: (unit, unit) FetchWrapper)
          ''/a'' no_options (fresh ())) = Inr (response 200 [])"
  using guard_reports_only_timeout [of "always (Inl (TypeError ''Failed to fetch''))" "fresh ()"
      "constructor no_config :: (unit, unit) FetchWrapper" "''/a''" no_options
      "Inl (TypeError ''Failed to fetch'')" "()"]
    guard_reports_only_timeout [of "always (Inl (DOMException ''AbortError'' ''The operation was aborted.''))" "fresh ()"
      "constructor no_config :: (unit, unit) FetchWrapper" "''/a''" no_options
      "Inl (DOMException ''AbortError'' ''The operation was aborted.'')" "()"]
    guard_reports_only_timeout [of "always (Inr (response 200 []))" "fresh ()"
      "constructor no_config :: (unit, unit) FetchWrapper" "''/a''" no_options
      "Inr (response 200 [])" "()"]
  by (simp add: always_def)

text \<open>
  C6, as the code has it. When an attempt that is not the last one gets a 429 with a
  \<^verbatim>\<open>Retry-After\<close> header, the next wait is \<^verbatim>\<open>parseInt(header) * 1000\<close> as the
  doubles give it, whatever the interval was: \<open>h * 1000\<close> ms for a header that parses to
  \<open>h\<close> with \<open>h * 1000\<close> of magnitude at most \<open>2^53\<close>. When the 429 has no such header,
  the next wait is the interval the loop holds at that attempt. In both cases the loop goes
  on holding the interval it has just waited: \<^verbatim>\<open>retryFetch\<close> starts the loop with
  the resolved retry interval, and a \<^verbatim>\<open>Retry-After\<close> of an earlier attempt of the
  call replaces it for the attempts after it, so that a 429 without the header that
  follows one with the header waits the header's value again.
\<close>

theorem wait_after_429:
  assumes "i < limit"
    and "fetchWithTimeout fetch fw resource options e = (Inr r, options', e')"
    and "status r = 429"
  shows "let W = (case headers_get (headers r) ''Retry-After'' of
                    Some v \<Rightarrow> js_times (parseInt v) 1000 | None \<Rightarrow> interval);
             after = sleep W (console_error (Line (''Attempt '' @ show_int (i + 1) @ '' failed: '' @
                        ''Network response was not ok: '' @ show_int 429)) e')
         in retry_loop (attempt fetch fw resource) limit i interval options e =
              retry_loop (attempt fetch fw resource) limit (i + 1) W options' after \<and>
            (\<exists>ws. sleeps (snd (snd (retry_loop (attempt fetch fw resource) limit i interval options e))) =
                    sleeps e @ W # ws) \<and>
            (\<forall>v h. headers_get (headers r) ''Retry-After'' = Some v \<and> parseInt v = Num h \<and>
                   \<bar>h * 1000\<bar> \<le> 2 ^ 53 \<longrightarrow> W = Num (h * 1000)) \<and>
            (\<forall>r2 options2 e2.
               i + 1 < limit \<and>
               fetchWithTimeout fetch fw resource options' after = (Inr r2, options2, e2) \<and>
               status r2 = 429 \<and> headers_get (headers r2) ''Retry-After'' = None \<longrightarrow>
               (\<exists>ws. sleeps (snd (snd (retry_loop (attempt fetch fw resource) limit i interval options e))) =
                       sleeps e @ W # W # ws)) \<and>
            retryFetch fetch fw resource options e =
              retry_loop (attempt fetch fw resource)
                (case opt_retries options of Some n \<Rightarrow> n | None \<Rightarrow> retries fw) 0
                (Num (case opt_retryInterval options of Some n \<Rightarrow> n | None \<Rightarrow> retryInterval fw))
                options e"
proof -
  define W where "W = (case headers_get (headers r) ''Retry-After'' of
                    Some v \<Rightarrow> js_times (parseInt v) 1000 | None \<Rightarrow> interval)"
  define after where "after = sleep W (console_error (Line (''Attempt '' @ show_int (i + 1) @
                        '' failed: '' @ ''Network response was not ok: '' @ show_int 429)) e')"
  have a: "attempt fetch fw resource interval options e =
     (Inl (Error (''Network response was not ok: '' @ show_int 429)), W, options', e')"
    using attempt_retryable [OF assms(2), of interval] assms(3) by (simp add: W_def)
  have s: "sleeps e' = sleeps e" by (rule attempt_sleeps [OF a])
  have 1: "retry_loop (attempt fetch fw resource) limit i interval options e =
              retry_loop (attempt fetch fw resource) limit (i + 1) W options' after"
    using retry_loop_step [where try_body = "attempt fetch fw resource" and interval = interval
        and options = options and e = e and i = i and limit = limit, OF assms(1) a]
    by (simp add: after_def)
  have 2: "\<exists>ws. sleeps (snd (snd (retry_loop (attempt fetch fw resource) limit i interval options e))) =
                    sleeps e @ W # ws"
    by (rule retry_loop_first_wait [OF assms(1) a])
  have 3: "W = Num (h * 1000)"
    if "headers_get (headers r) ''Retry-After'' = Some v" "parseInt v = Num h"
      "\<bar>h * 1000\<bar> \<le> 2 ^ 53" for v h
    using that(1) js_times_exact [OF that(2,3)] by (simp add: W_def)
  have 4: "\<exists>ws. sleeps (snd (snd (retry_loop (attempt fetch fw resource) limit i interval options e))) =
                       sleeps e @ W # W # ws"
    if lt: "i + 1 < limit"
      and run2: "fetchWithTimeout fetch fw resource options' after = (Inr r2, options2, e2)"
      and r2: "status r2 = 429" "headers_get (headers r2) ''Retry-After'' = None"
    for r2 options2 e2
  proof -
    have a2: "attempt fetch fw resource W options' after =
       (Inl (Error (''Network response was not ok: '' @ show_int 429)), W, options2, e2)"
      using attempt_retryable [OF run2, of W] r2 by simp
    from retry_loop_first_wait [OF lt a2]
    obtain ws where
      "sleeps (snd (snd (retry_loop (attempt fetch fw resource) limit (i + 1) W options' after))) =
         sleeps after @ W # ws" by blast
    then show ?thesis
      using 1 s by (simp add: after_def sleep_def console_error_def)
  qed
  have 5: "retryFetch fetch fw resource options e =
              retry_loop (attempt fetch fw resource)
                (case opt_retries options of Some n \<Rightarrow> n | None \<Rightarrow> retries fw) 0
                (Num (case opt_retryInterval options of Some n \<Rightarrow> n | None \<Rightarrow> retryInterval fw))
                options e"
    by (simp add: retryFetch_def)
  show ?thesis
    unfolding Let_def W_def [symmetric] after_def [symmetric]
    using 1 2 3 4 5 by blast
qed

theorem wait_after_429_witness:
  "(0::int) + 1 < 3 \<and>
   (\<exists>ws. sleeps (snd (snd (retry_loop
       (attempt (scripted [Inr (response 429 [(''Retry-After'', ''2'')]), Inr (response 429 []),
                           Inr (response 200 [])])
          (constructor no_config :: (unit, nat) FetchWrapper) ''/a'')
       3 0 (Num 1000) no_options (fresh 0)))) = Num 2000 # Num 2000 # ws)"
proof -
  let ?fetch = "scripted [Inr (response 429 [(''Retry-After'', ''2'')]), Inr (response 429 []),
                           Inr (response 200 [])]"
  let ?fw = "constructor no_config :: (unit, nat) FetchWrapper"
  let ?r = "response 429 [(''Retry-After'', ''2'')]"
  let ?run1 = "fetchWithTimeout ?fetch ?fw ''/a'' no_options (fresh 0)"
  let ?after = "sleep (Num 2000)
              (console_error (Line (''Attempt '' @ show_int (0 + 1) @ '' failed: '' @
                 ''Network response was not ok: '' @ show_int 429)) (snd (snd ?run1)))"
  let ?run2 = "fetchWithTimeout ?fetch ?fw ''/a'' (fst (snd ?run1)) ?after"
  have h0: "(0::int) < 3" by simp
  have h1: "(0::int) + 1 < 3" by simp
  have "fst ?run1 = Inr ?r" by code_simp
  then have h2: "?run1 = (Inr ?r, fst (snd ?run1), snd (snd ?run1))"
    by (metis prod.collapse)
  have h3: "status ?r = 429" by (simp add: response_def)
  have W: "(case headers_get (headers ?r) ''Retry-After'' of
              Some v \<Rightarrow> js_times (parseInt v) 1000 | None \<Rightarrow> Num 1000) = Num 2000"
    by code_simp
  have "fst ?run2 = Inr (response 429 [])" by code_simp
  then have h4: "?run2 = (Inr (response 429 []), fst (snd ?run2), snd (snd ?run2))"
    by (metis prod.collapse)
  have h5: "status (response 429 []) = 429"
    "headers_get (headers (response 429 [])) ''Retry-After'' = None"
    by (simp_all add: response_def headers_get_def header_values_def)
  note t = wait_after_429 [OF h0 h2 h3, of "Num 1000", unfolded Let_def W]
  from t [THEN conjunct2, THEN conjunct2, THEN conjunct2, THEN conjunct1, rule_format,
      of "response 429 []" "fst (snd ?run2)" "snd (snd ?run2)"] h1 h4 h5
  have "\<exists>ws. sleeps (snd (snd (retry_loop (attempt ?fetch ?fw ''/a'') 3 0 (Num 1000) no_options (fresh 0)))) =
          sleeps (fresh 0 :: nat env) @ Num 2000 # Num 2000 # ws"
    by blast
  then show ?thesis by (simp add: fresh_def)
qed

text \<open>
  C6 as stated fails: the second attempt below gets a 429 without \<^verbatim>\<open>Retry-After\<close>,
  and the wait after it is the 2000 ms of the first attempt's header, not the resolved
  retry interval of 1000 ms.
\<close>

theorem wait_after_429_counterexample:
  "headers_get (headers (response 429 [])) ''Retry-After'' = None \<and>
   retryInterval (constructor no_config :: (unit, nat) FetchWrapper) = 1000 \<and>
   sleeps (snd (snd (retryFetch
      (scripted [Inr (response 429 [(''Retry-After'', ''2'')]), Inr (response 429 []),
                 Inr (response 200 [])])
      (constructor no_config :: (unit, nat) FetchWrapper) ''/a'' no_options (fresh 0)))) =
     [Num 2000, Num 2000]"
  by code_simp

text \<open>
  C7, as the code has it. The override stays: after a 429 with a \<^verbatim>\<open>Retry-After\<close>
  header, the wait after the next attempt is \<^verbatim>\<open>parseInt(header) * 1000\<close> again
  (\<open>h * 1000\<close> ms for a header that parses to \<open>h\<close> with \<open>h * 1000\<close> of magnitude at
  most \<open>2^53\<close>) when that attempt fails without a \<^verbatim>\<open>Retry-After\<close> of its own (the
  transport throws, a 5xx, or a 429 without the header). Nothing but such a 429 changes
  the interval: while no attempt gets one, every wait of the loop is the interval the loop
  holds.
\<close>

theorem retry_after_override_persists:
  assumes "i + 1 < limit"
    and "fetchWithTimeout fetch fw resource options e = (Inr r, options1, e1)"
    and "status r = 429"
    and "headers_get (headers r) ''Retry-After'' = Some v"
    and "fetchWithTimeout fetch fw resource options1
           (sleep (js_times (parseInt v) 1000)
              (console_error (Line (''Attempt '' @ show_int (i + 1) @ '' failed: '' @
                 ''Network response was not ok: '' @ show_int 429)) e1)) = (x, options2, e2)"
    and "case x of Inl reason \<Rightarrow> True
         | Inr r2 \<Rightarrow> 500 \<le> status r2 \<or>
                     (status r2 = 429 \<and> headers_get (headers r2) ''Retry-After'' = None)"
  shows "(\<exists>ws. sleeps (snd (snd (retry_loop (attempt fetch fw resource) limit i interval options e))) =
           sleeps e @ js_times (parseInt v) 1000 # js_times (parseInt v) 1000 # ws) \<and>
         (\<forall>h. parseInt v = Num h \<and> \<bar>h * 1000\<bar> \<le> 2 ^ 53 \<longrightarrow>
              js_times (parseInt v) 1000 = Num (h * 1000)) \<and>
         ((\<forall>w u opts. case fst (other w u opts) of Inl reason \<Rightarrow> True
             | Inr r \<Rightarrow> status r = 429 \<longrightarrow> headers_get (headers r) ''Retry-After'' = None) \<longrightarrow>
          (\<exists>ws. sleeps (snd (snd (retry_loop (attempt other fw resource) limit j held options0 e0))) =
                  sleeps e0 @ ws \<and> set ws \<subseteq> {held}))"
proof -
  let ?W = "js_times (parseInt v) 1000"
  let ?e1 = "sleep ?W
              (console_error (Line (''Attempt '' @ show_int (i + 1) @ '' failed: '' @
                 ''Network response was not ok: '' @ show_int 429)) e1)"
  have a1: "attempt fetch fw resource interval options e =
     (Inl (Error (''Network response was not ok: '' @ show_int 429)), ?W, options1, e1)"
    using attempt_retryable [OF assms(2), of interval] assms(3,4) by simp
  have s1: "sleeps e1 = sleeps e" by (rule attempt_sleeps [OF a1])
  have step: "retry_loop (attempt fetch fw resource) limit i interval options e =
          retry_loop (attempt fetch fw resource) limit (i + 1) ?W options1 ?e1"
    using retry_loop_step [where try_body = "attempt fetch fw resource" and interval = interval
        and options = options and e = e and i = i and limit = limit, OF _ a1] assms(1)
    by simp
  have "\<exists>error. attempt fetch fw resource ?W options1 ?e1 = (Inl error, ?W, options2, e2)"
  proof (cases x)
    case (Inl reason)
    then show ?thesis using attempt_throws [of fetch fw resource options1 ?e1] assms(5) by simp
  next
    case (Inr r2)
    then have "500 \<le> status r2 \<or> status r2 = 429"
      and "status r2 = 429 \<longrightarrow> headers_get (headers r2) ''Retry-After'' = None"
      using assms(6) by auto
    then show ?thesis
      using attempt_retryable [of fetch fw resource options1 ?e1 r2 options2 e2 ?W]
        assms(5) Inr by auto
  qed
  then obtain error where
    a2: "attempt fetch fw resource ?W options1 ?e1 = (Inl error, ?W, options2, e2)" by blast
  from retry_loop_first_wait [OF assms(1) a2]
  obtain ws where
    "sleeps (snd (snd (retry_loop (attempt fetch fw resource) limit (i + 1) ?W options1 ?e1))) =
       sleeps ?e1 @ ?W # ws" by blast
  then have "\<exists>ws. sleeps (snd (snd (retry_loop (attempt fetch fw resource) limit i interval options e))) =
           sleeps e @ ?W # ?W # ws"
    using step s1 by (simp add: sleep_def console_error_def)
  moreover have "\<forall>h. parseInt v = Num h \<and> \<bar>h * 1000\<bar> \<le> 2 ^ 53 \<longrightarrow> ?W = Num (h * 1000)"
    using js_times_exact by blast
  ultimately show ?thesis
    using retry_loop_interval_kept [of other fw resource limit j held options0 e0] by blast
qed

theorem retry_after_override_persists_witness:
  "(0::int) + 1 < 3 \<and>
   (\<exists>ws. sleeps (snd (snd (retry_loop
       (attempt (scripted [Inr (response 429 [(''Retry-After'', ''2'')]), Inr (response 503 []),
                           Inr (response 200 [])])
          (constructor no_config :: (unit, nat) FetchWrapper) ''/a'')
       3 0 (Num 1000) no_options (fresh 0)))) = Num 2000 # Num 2000 # ws) \<and>
   (\<exists>ws. sleeps (snd (snd (retry_loop
       (attempt (always (Inr (response 503 [])))
          (constructor no_config :: (unit, nat) FetchWrapper) ''/a'')
       3 1 (Num 2000) no_options (fresh (0::nat))))) = ws \<and> set ws \<subseteq> {Num 2000})"
proof -
  let ?fetch = "scripted [Inr (response 429 [(''Retry-After'', ''2'')]), Inr (response 503 []),
                           Inr (response 200 [])]"
  let ?fw = "constructor no_config :: (unit, nat) FetchWrapper"
  let ?r = "response 429 [(''Retry-After'', ''2'')]"
  let ?run1 = "fetchWithTimeout ?fetch ?fw ''/a'' no_options (fresh 0)"
  let ?e1 = "sleep (js_times (parseInt ''2'') 1000)
              (console_error (Line (''Attempt '' @ show_int (0 + 1) @ '' failed: '' @
                 ''Network response was not ok: '' @ show_int 429)) (snd (snd ?run1)))"
  let ?run2 = "fetchWithTimeout ?fetch ?fw ''/a'' (fst (snd ?run1)) ?e1"
  have h1: "(0::int) + 1 < 3" by simp
  have "fst ?run1 = Inr ?r" by code_simp
  then have h2: "?run1 = (Inr ?r, fst (snd ?run1), snd (snd ?run1))"
    by (metis prod.collapse)
  have h3: "status ?r = 429" by (simp add: response_def)
  have h4: "headers_get (headers ?r) ''Retry-After'' = Some ''2''" by code_simp
  have W: "js_times (parseInt ''2'') 1000 = Num 2000" by code_simp
  have "fst ?run2 = Inr (response 503 [])" by code_simp
  then have h6: "?run2 = (Inr (response 503 []), fst (snd ?run2), snd (snd ?run2))"
    by (metis prod.collapse)
  have h7: "case Inr (response 503 []) :: error + Response of Inl reason \<Rightarrow> True
         | Inr r2 \<Rightarrow> 500 \<le> status r2 \<or>
                     (status r2 = 429 \<and> headers_get (headers r2) ''Retry-After'' = None)"
    by (simp add: response_def)
  have h8: "\<forall>w u opts. case fst (always (Inr (response 503 [])) (w :: nat) u opts) of
               Inl reason \<Rightarrow> True
             | Inr r \<Rightarrow> status r = 429 \<longrightarrow> headers_get (headers r) ''Retry-After'' = None"
    by (simp add: always_def response_def)
  note t = retry_after_override_persists [OF h1 h2 h3 h4 h6 h7,
      where interval = "Num 1000" and other = "always (Inr (response 503 [])) :: nat transport"
        and j = 1 and held = "Num 2000" and ?options0.0 = no_options
        and ?e0.0 = "fresh 0 :: nat env"]
  from t [THEN conjunct1]
  have a: "\<exists>ws. sleeps (snd (snd (retry_loop (attempt ?fetch ?fw ''/a'') 3 0 (Num 1000) no_options (fresh 0)))) =
          Num 2000 # Num 2000 # ws"
    unfolding W by (simp add: fresh_def)
  have b: "\<exists>ws. sleeps (snd (snd (retry_loop (attempt (always (Inr (response 503 []))) ?fw ''/a'')
              3 1 (Num 2000) no_options (fresh (0::nat))))) = sleeps (fresh 0 :: nat env) @ ws \<and>
            set ws \<subseteq> {Num 2000}"
    by (rule t [THEN conjunct2, THEN conjunct2, THEN mp, OF h8])
  then have "\<exists>ws. sleeps (snd (snd (retry_loop (attempt (always (Inr (response 503 []))) ?fw ''/a'')
              3 1 (Num 2000) no_options (fresh (0::nat))))) = ws \<and> set ws \<subseteq> {Num 2000}"
    by (simp add: fresh_def)
  with a h1 show ?thesis by blast
qed

text \<open>
  C7 as stated fails: after a 429 with \<^verbatim>\<open>Retry-After: 2\<close> and then a 503, both waits
  are 2000 ms; the second does not go back to the resolved retry interval of 1000 ms.
\<close>

theorem retry_after_override_persists_counterexample:
  "retryInterval (constructor no_config :: (unit, nat) FetchWrapper) = 1000 \<and>
   sleeps (snd (snd (retryFetch
      (scripted [Inr (response 429 [(''Retry-After'', ''2'')]), Inr (response 503 []),
                 Inr (response 200 [])])
      (constructor no_config :: (unit, nat) FetchWrapper) ''/a'' no_options (fresh 0)))) =
     [Num 2000, Num 2000]"
  by code_simp

text \<open>
  C10. The constructor takes a configured 0 for absent: \<^verbatim>\<open>retries: 0\<close> gives 3,
  \<^verbatim>\<open>timeout: 0\<close> gives 5000 and \<^verbatim>\<open>retryInterval: 0\<close> gives 1000. A per-call 0
  is kept: with \<^verbatim>\<open>_timeout: 0\<close> the timer of the attempt is set to 0, with
  \<^verbatim>\<open>_retries: 0\<close> a failing call makes one transport call and no wait, and with
  \<^verbatim>\<open>_retryInterval: 0\<close> the wait between two attempts is 0.
\<close>

theorem zero_config_is_default_zero_override_is_kept:
  "retries (constructor (config\<lparr>cfg_retries := Some 0\<rparr>) :: ('r, 'w) FetchWrapper) = 3 \<and>
   timeout (constructor (config\<lparr>cfg_timeout := Some 0\<rparr>) :: ('r, 'w) FetchWrapper) = 5000 \<and>
   retryInterval (constructor (config\<lparr>cfg_retryInterval := Some 0\<rparr>) :: ('r, 'w) FetchWrapper) = 1000 \<and>
   timers (snd (snd (fetchWithTimeout (always (Inl reason)) fw resource
                       (options\<lparr>opt_timeout := Some 0\<rparr>) e))) =
     timers e @ [(next_timer e, 0)] \<and>
   length (fetched (snd (snd (retryFetch (always (Inl reason)) fw resource
                       (options\<lparr>opt_retries := Some 0\<rparr>) e)))) = length (fetched e) + 1 \<and>
   sleeps (snd (snd (retryFetch (always (Inl reason)) fw resource
                       (options\<lparr>opt_retries := Some 0\<rparr>) e))) = sleeps e \<and>
   sleeps (snd (snd (retryFetch (always (Inl reason)) fw resource
                       (options\<lparr>opt_retries := Some 1, opt_retryInterval := Some 0\<rparr>) e))) =
     sleeps e @ [Num 0]"
proof -
  have c: "retries (constructor (config\<lparr>cfg_retries := Some 0\<rparr>) :: ('r, 'w) FetchWrapper) = 3"
    "timeout (constructor (config\<lparr>cfg_timeout := Some 0\<rparr>) :: ('r, 'w) FetchWrapper) = 5000"
    "retryInterval (constructor (config\<lparr>cfg_retryInterval := Some 0\<rparr>) :: ('r, 'w) FetchWrapper) = 1000"
    by (simp_all add: constructor_def or_number_def)
  have t: "timers (snd (snd (fetchWithTimeout (always (Inl reason)) fw resource
                       (options\<lparr>opt_timeout := Some 0\<rparr>) e))) = timers e @ [(next_timer e, 0)]"
    by (simp add: fetchWithTimeout_timers always_def)
  show ?thesis
    using c t retries_zero_override [of reason fw resource options e]
      retryInterval_zero_override [of reason fw resource options e]
    by blast
qed

text \<open>
  C3, as the code has it. When the \<^verbatim>\<open>fulfilled\<close> handler of an entry raises (the
  entries before it having returned), \<^verbatim>\<open>runHandlers\<close> calls that entry's
  \<^verbatim>\<open>rejected\<close> handler, if there is one, with the error, runs no later entry, and
  fails: with the original error when there is no \<^verbatim>\<open>rejected\<close> handler or when it
  returns, whatever it returns; with the error that \<^verbatim>\<open>rejected\<close> raised when it
  raises. The result is never a value.
\<close>

theorem rejected_observes_then_failure_propagates:
  assumes "handlers m = pre @ h # post"
    and "run pre val w = (Inr val1, w1)"
    and "fulfilled h = Some f"
    and "f val1 w1 = (Inl error, w2)"
  shows "runHandlers m val w =
           (case rejected h of
              None \<Rightarrow> (Inl error, w2)
            | Some r \<Rightarrow>
                (case r error w2 of
                   (Inr x, w3) \<Rightarrow> (Inl error, w3)
                 | (Inl error', w3) \<Rightarrow> (Inl error', w3)))"
  using assms by (simp add: runHandlers_def run_append split: option.splits prod.splits sum.splits)

theorem rejected_observes_then_failure_propagates_witness:
  "runHandlers
     \<lparr>handlers = [\<lparr>fulfilled = Some (append_tag ''A''), rejected = None\<rparr>,
                  \<lparr>fulfilled = Some (\<lambda>val w. (Inl (Error ''original''), w)),
                   rejected = Some (\<lambda>error w. (Inr ''recovered'', w @ [error]))\<rparr>,
                  \<lparr>fulfilled = Some (append_tag ''C''), rejected = None\<rparr>]\<rparr>
     [] [] = (Inl (Error ''original''), [Error ''original''])"
proof -
  let ?a = "\<lparr>fulfilled = Some (append_tag ''A''),
             rejected = None :: (error \<Rightarrow> error list \<Rightarrow> (error + string) \<times> error list) option\<rparr>"
  let ?h = "\<lparr>fulfilled = Some (\<lambda>(val :: string list) (w :: error list). (Inl (Error ''original''), w)),
              rejected = Some (\<lambda>error w. (Inr ''recovered'', w @ [error]))\<rparr>"
  let ?c = "\<lparr>fulfilled = Some (append_tag ''C''),
             rejected = None :: (error \<Rightarrow> error list \<Rightarrow> (error + string) \<times> error list) option\<rparr>"
  have h1: "handlers \<lparr>handlers = [?a, ?h, ?c]\<rparr> = [?a] @ ?h # [?c]" by simp
  have h2: "run [?a] [] [] = (Inr [''A''], [])" by (simp add: append_tag_def)
  have h3: "fulfilled ?h = Some (\<lambda>val w. (Inl (Error ''original''), w))" by simp
  have h4: "(\<lambda>(val :: string list) (w :: error list). (Inl (Error ''original'') :: error + string list, w)) [''A''] [] =
              (Inl (Error ''original''), [])" by simp
  show ?thesis
    using rejected_observes_then_failure_propagates [OF h1 h2 h3 h4] by simp
qed

text \<open>
  C3 as stated fails where \<^verbatim>\<open>rejected\<close> itself raises: the chain then fails with
  the error of \<^verbatim>\<open>rejected\<close>, not with the original one.
\<close>

theorem rejected_observes_then_failure_propagates_counterexample:
  "runHandlers
     \<lparr>handlers = [\<lparr>fulfilled = Some (\<lambda>val w. (Inl (Error ''original''), w)),
                   rejected = Some (\<lambda>error w. (Inl (Error ''from rejected'') :: error + unit, w))\<rparr>]\<rparr>
     (0 :: nat) () = (Inl (Error ''from rejected''), ())"
  by (simp add: runHandlers_def)

text \<open>
  C8. \<^verbatim>\<open>use\<close> puts the new entry behind all earlier ones and drops none; the new
  entry runs after them, on the value they produced. Handlers that each append a tag,
  registered in the order \<open>ts\<close> (repeated tags included), leave the tags in that
  order behind the ones the value came with; for \<open>[A, B]\<close> the result is \<open>[A, B]\<close>.
\<close>

theorem handlers_run_in_registration_order:
  "handlers (use f r m) = handlers m @ [\<lparr>fulfilled = f, rejected = r\<rparr>] \<and>
   runHandlers (use f r m) val w =
     (case runHandlers m val w of
        (Inl error, w') \<Rightarrow> (Inl error, w')
      | (Inr val', w') \<Rightarrow> run [\<lparr>fulfilled = f, rejected = r\<rparr>] val' w') \<and>
   runHandlers (foldl (\<lambda>m t. use (Some (append_tag t)) None m) \<lparr>handlers = []\<rparr> ts) tags w' =
     (Inr (tags @ ts), w') \<and>
   runHandlers (use (Some (append_tag B)) None (use (Some (append_tag A)) None \<lparr>handlers = []\<rparr>)) [] w' =
     (Inr [A, B], w')"
proof -
  have 1: "handlers (use f r m) = handlers m @ [\<lparr>fulfilled = f, rejected = r\<rparr>]"
    by (simp add: use_def)
  have 2: "runHandlers (use f r m) val w =
     (case runHandlers m val w of
        (Inl error, w') \<Rightarrow> (Inl error, w')
      | (Inr val', w') \<Rightarrow> run [\<lparr>fulfilled = f, rejected = r\<rparr>] val' w')"
    unfolding runHandlers_def 1 by (rule run_append)
  have 4: "runHandlers (use (Some (append_tag B)) None (use (Some (append_tag A)) None \<lparr>handlers = []\<rparr>)) [] w' =
     (Inr [A, B], w')"
    using runHandlers_tags [of "[A, B]" "[]" w'] by simp
  show ?thesis using 1 2 4 runHandlers_tags [of ts tags w'] by blast
qed

text \<open>
  C2, as the code has it. Let the transport answer every call with a response whose
  status is not ok, below 500 and not 429 (a 404, say). With a resolved retry count of at
  least 0, \<^verbatim>\<open>retryFetch\<close> returns that response after one transport call, without
  a wait and without a log line. \<^verbatim>\<open>request\<close> of \<^verbatim>\<open>src/index.ts\<close> has no check
  of \<^verbatim>\<open>ok\<close>: once the request interceptors have returned, its result is what the
  response interceptor chain makes of that response. Only the legacy \<^verbatim>\<open>request\<close>
  raises \<^verbatim>\<open>Error('Network response was not ok')\<close>, and the call rejects with it when no
  response interceptor has a \<^verbatim>\<open>rejected\<close> handler.
\<close>

theorem not_ok_response_is_not_retried:
  assumes "\<forall>w u opts. fst (fetch w u opts) = Inr r"
    and "\<not> ok r" and "status r < 500" and "status r \<noteq> 429"
  shows
   "(0 \<le> (case opt_retries options of Some n \<Rightarrow> n | None \<Rightarrow> retries fw) \<longrightarrow>
       (\<exists>options' e'. retryFetch fetch fw resource options e = (Inr r, options', e') \<and>
          length (fetched e') = length (fetched e) + 1 \<and> sleeps e' = sleeps e \<and>
          console e' = console e)) \<and>
    (\<forall>resource1 options1 w1.
       runHandlers (interceptors_request fw) (resource, options) (world e) =
         (Inr (resource1, options1), w1) \<and>
       ((case opt_retryOnFail options of Some b \<Rightarrow> b | None \<Rightarrow> retryOnFail fw) \<longrightarrow>
          0 \<le> (case opt_retries options1 of Some n \<Rightarrow> n | None \<Rightarrow> retries fw)) \<longrightarrow>
       (\<exists>w2. fst (request fetch fw resource options e) =
              fst (runHandlers (interceptors_response fw) r w2))) \<and>
    (\<forall>options1 w1.
       applyInterceptors options (requestInterceptors legacy) (world e) = (Inr options1, w1) \<and>
       ((case opt_retryOnFail options of Some b \<Rightarrow> b | None \<Rightarrow> retryOnFail legacy) \<longrightarrow>
          0 \<le> (case opt_retries options1 of Some n \<Rightarrow> n | None \<Rightarrow> retries legacy)) \<and>
       (\<forall>h \<in> set (responseInterceptors legacy). rejected h = None) \<longrightarrow>
       fst (request_legacy fetch legacy resource options e) =
         Inl (Error ''Network response was not ok''))"
proof (intro conjI allI impI)
  assume "0 \<le> (case opt_retries options of Some n \<Rightarrow> n | None \<Rightarrow> retries fw)"
  then show "\<exists>options' e'. retryFetch fetch fw resource options e = (Inr r, options', e') \<and>
          length (fetched e') = length (fetched e) + 1 \<and> sleeps e' = sleeps e \<and>
          console e' = console e"
    using fetchWithTimeout_always_resolves [OF assms(1), of fw resource options e]
      retryFetch_returns_first(1) [where options = options and fw = fw and fetch = fetch
        and resource = resource and e = e and r = r] assms(3,4)
    by auto
next
  fix resource1 options1 w1
  let ?retry = "case opt_retryOnFail options of Some b \<Rightarrow> b | None \<Rightarrow> retryOnFail fw"
  assume a: "runHandlers (interceptors_request fw) (resource, options) (world e) =
         (Inr (resource1, options1), w1) \<and>
       (?retry \<longrightarrow> 0 \<le> (case opt_retries options1 of Some n \<Rightarrow> n | None \<Rightarrow> retries fw))"
  obtain options' e' where
    d: "(if \<not> ?retry then fetchWithTimeout fetch fw resource1 options1 (e\<lparr>world := w1\<rparr>)
         else retryFetch fetch fw resource1 options1 (e\<lparr>world := w1\<rparr>)) = (Inr r, options', e')"
    using dispatch_returns(1) [OF assms(1,3,4), where retry = ?retry and options = options1 and fw = fw
        and resource = resource1 and e = "e\<lparr>world := w1\<rparr>"] a
    by blast
  have "fst (request fetch fw resource options e) =
          fst (runHandlers (interceptors_response fw) r (world e'))"
    using a d by (simp add: request_def request_try_def Let_def split: prod.splits sum.splits)
  then show "\<exists>w2. fst (request fetch fw resource options e) =
              fst (runHandlers (interceptors_response fw) r w2)" by blast
next
  fix options1 w1
  let ?retry = "case opt_retryOnFail options of Some b \<Rightarrow> b | None \<Rightarrow> retryOnFail legacy"
  assume a: "applyInterceptors options (requestInterceptors legacy) (world e) = (Inr options1, w1) \<and>
       (?retry \<longrightarrow> 0 \<le> (case opt_retries options1 of Some n \<Rightarrow> n | None \<Rightarrow> retries legacy)) \<and>
       (\<forall>h \<in> set (responseInterceptors legacy). rejected h = None)"
  obtain options' e' where
    d: "(if \<not> ?retry then fetchWithTimeout fetch legacy resource options1 (e\<lparr>world := w1\<rparr>)
         else retryFetch_legacy fetch legacy resource options1 (e\<lparr>world := w1\<rparr>)) = (Inr r, options', e')"
    using dispatch_returns(2) [OF assms(1,3,4), where retry = ?retry and options = options1
        and fw = legacy and resource = resource and e = "e\<lparr>world := w1\<rparr>"] a
    by blast
  have "request_try_legacy fetch legacy ?retry resource options1 (e\<lparr>world := w1\<rparr>) =
          (Inl (Error ''Network response was not ok''), e')"
    using d assms(2) by (simp add: request_try_legacy_def)
  then show "fst (request_legacy fetch legacy resource options e) =
         Inl (Error ''Network response was not ok'')"
    using a by (simp add: request_legacy_def Let_def rejected_scan_none)
qed

theorem not_ok_response_is_not_retried_witness:
  "(\<exists>options' e'.
      retryFetch (always (Inr (response 404 []))) (constructor no_config :: (unit, unit) FetchWrapper)
        ''/a'' (no_options\<lparr>opt_retryOnFail := Some True\<rparr>) (fresh ()) = (Inr (response 404 []), options', e') \<and>
      length (fetched e') = 1 \<and> sleeps e' = []) \<and>
   fst (request (always (Inr (response 404 []))) (constructor no_config :: (unit, unit) FetchWrapper)
          ''/a'' (no_options\<lparr>opt_retryOnFail := Some True\<rparr>) (fresh ())) = Inr (response 404 []) \<and>
   fst (request_legacy (always (Inr (response 404 []))) (constructor_legacy no_config)
          ''/a'' (no_options\<lparr>opt_retryOnFail := Some True\<rparr>) (fresh ())) =
     Inl (Error ''Network response was not ok'')"
proof -
  let ?fetch = "always (Inr (response 404 [])) :: unit transport"
  let ?fw = "constructor no_config :: (unit, unit) FetchWrapper"
  let ?legacy = "constructor_legacy no_config :: unit LegacyFetchWrapper"
  let ?options = "no_options\<lparr>opt_retryOnFail := Some True\<rparr>"
  have h1: "\<forall>w u opts. fst (?fetch w u opts) = Inr (response 404 [])"
    by (simp add: always_def)
  have h2: "\<not> ok (response 404 [])" "status (response 404 []) < 500"
    "status (response 404 []) \<noteq> 429"
    by (simp_all add: ok_def response_def)
  note t = not_ok_response_is_not_retried [OF h1 h2, where options = ?options and fw = ?fw
      and resource = "''/a''" and e = "fresh ()" and legacy = ?legacy]
  have n: "0 \<le> (case opt_retries ?options of Some n \<Rightarrow> n | None \<Rightarrow> retries ?fw)"
    "0 \<le> (case opt_retries ?options of Some n \<Rightarrow> n | None \<Rightarrow> retries ?legacy)"
    by (simp_all add: no_options_def constructor_def constructor_legacy_def no_config_def or_number_def)
  have 1: "\<exists>options' e'. retryFetch ?fetch ?fw ''/a'' ?options (fresh ()) =
      (Inr (response 404 []), options', e') \<and> length (fetched e') = 1 \<and> sleeps e' = []"
    using t [THEN conjunct1] n(1) by (auto simp add: fresh_def)
  have q: "runHandlers (interceptors_request ?fw) (''/a'', ?options) (world (fresh ())) =
      (Inr (''/a'', ?options), ())"
    by (simp add: runHandlers_def constructor_def)
  have "\<exists>w2. fst (request ?fetch ?fw ''/a'' ?options (fresh ())) =
      fst (runHandlers (interceptors_response ?fw) (response 404 []) w2)"
    using t [THEN conjunct2, THEN conjunct1] q n(1) by blast
  then have 2: "fst (request ?fetch ?fw ''/a'' ?options (fresh ())) = Inr (response 404 [])"
    by (simp add: runHandlers_def constructor_def)
  have l: "applyInterceptors ?options (requestInterceptors ?legacy) (world (fresh ())) =
      (Inr ?options, ())"
    "\<forall>h \<in> set (responseInterceptors ?legacy). rejected h = None"
    by (simp_all add: constructor_legacy_def)
  have 3: "fst (request_legacy ?fetch ?legacy ''/a'' ?options (fresh ())) =
     Inl (Error ''Network response was not ok'')"
    using t [THEN conjunct2, THEN conjunct2] l n(2) by blast
  show ?thesis using 1 2 3 by blast
qed

text \<open>
  C2 as stated fails on \<^verbatim>\<open>src/index.ts\<close>: with no interceptor registered, a 404
  makes \<^verbatim>\<open>request\<close> resolve with the 404 response, with the retry switch off and
  with it on.
\<close>

theorem not_ok_response_is_not_retried_counterexample:
  "\<not> ok (response 404 []) \<and>
   fst (request (always (Inr (response 404 []))) (constructor no_config :: (unit, unit) FetchWrapper)
          ''/a'' no_options (fresh ())) = Inr (response 404 []) \<and>
   fst (request (always (Inr (response 404 []))) (constructor no_config :: (unit, unit) FetchWrapper)
          ''/a'' (no_options\<lparr>opt_retryOnFail := Some True\<rparr>) (fresh ())) = Inr (response 404 [])"
  by code_simp

text \<open>
  C4, as the code has it. In the legacy \<^verbatim>\<open>request\<close>, a failure raised inside the
  \<^verbatim>\<open>try\<close> block (dispatch, the check of \<^verbatim>\<open>ok\<close>, the response interceptors)
  goes to the first response interceptor that has a \<^verbatim>\<open>rejected\<close> handler, and to
  that one only: the call resolves with the value the handler returns, or rejects with
  the error it raises; with no such handler the call rejects with the failure itself. A
  failure of the request interceptors is raised before the \<^verbatim>\<open>try\<close> block and rejects
  the call with no scan. \<^verbatim>\<open>request\<close> of \<^verbatim>\<open>src/index.ts\<close> has no scan: it logs
  the failure of its \<^verbatim>\<open>try\<close> block and rejects with it.
\<close>

theorem failure_recovery_scan:
  "(applyInterceptors options (requestInterceptors legacy) (world e) = (Inr options1, w1) \<and>
    request_try_legacy fetch legacy
      (case opt_retryOnFail options of Some b \<Rightarrow> b | None \<Rightarrow> retryOnFail legacy)
      resource options1 (e\<lparr>world := w1\<rparr>) = (Inl error, e2) \<longrightarrow>
      (\<forall>pre h r post.
         responseInterceptors legacy = pre @ h # post \<and> (\<forall>p \<in> set pre. rejected p = None) \<and>
         rejected h = Some r \<longrightarrow>
         request_legacy fetch legacy resource options e =
           (case r error (world e2) of
              (Inr v, w) \<Rightarrow> (Inr v, e2\<lparr>world := w\<rparr>)
            | (Inl newError, w) \<Rightarrow>
                (Inl newError, console_error (Thrown newError) (e2\<lparr>world := w\<rparr>)))) \<and>
      ((\<forall>h \<in> set (responseInterceptors legacy). rejected h = None) \<longrightarrow>
         request_legacy fetch legacy resource options e = (Inl error, e2))) \<and>
   (applyInterceptors options (requestInterceptors legacy) (world e) = (Inl error, w1) \<longrightarrow>
      request_legacy fetch legacy resource options e = (Inl error, e\<lparr>world := w1\<rparr>)) \<and>
   (request_try fetch fw
      (case opt_retryOnFail options of Some b \<Rightarrow> b | None \<Rightarrow> retryOnFail fw)
      resource options e = (Inl error, e3) \<longrightarrow>
      request fetch fw resource options e =
        (Inl error, console_error (Labelled ''Request failed:'' error) e3))"
proof (intro conjI impI allI)
  fix pre h r post
  assume run: "applyInterceptors options (requestInterceptors legacy) (world e) = (Inr options1, w1) \<and>
    request_try_legacy fetch legacy
      (case opt_retryOnFail options of Some b \<Rightarrow> b | None \<Rightarrow> retryOnFail legacy)
      resource options1 (e\<lparr>world := w1\<rparr>) = (Inl error, e2)"
    and first: "responseInterceptors legacy = pre @ h # post \<and>
      (\<forall>p \<in> set pre. rejected p = None) \<and> rejected h = Some r"
  have "request_legacy fetch legacy resource options e =
          rejected_scan (pre @ h # post) error e2"
    using run first by (simp add: request_legacy_def Let_def)
  then show "request_legacy fetch legacy resource options e =
           (case r error (world e2) of
              (Inr v, w) \<Rightarrow> (Inr v, e2\<lparr>world := w\<rparr>)
            | (Inl newError, w) \<Rightarrow>
                (Inl newError, console_error (Thrown newError) (e2\<lparr>world := w\<rparr>)))"
    using first by (simp add: rejected_scan_first)
next
  assume run: "applyInterceptors options (requestInterceptors legacy) (world e) = (Inr options1, w1) \<and>
    request_try_legacy fetch legacy
      (case opt_retryOnFail options of Some b \<Rightarrow> b | None \<Rightarrow> retryOnFail legacy)
      resource options1 (e\<lparr>world := w1\<rparr>) = (Inl error, e2)"
    and none: "\<forall>h \<in> set (responseInterceptors legacy). rejected h = None"
  have "request_legacy fetch legacy resource options e =
          rejected_scan (responseInterceptors legacy) error e2"
    using run by (simp add: request_legacy_def Let_def)
  then show "request_legacy fetch legacy resource options e = (Inl error, e2)"
    using none by (simp add: rejected_scan_none)
next
  assume "applyInterceptors options (requestInterceptors legacy) (world e) = (Inl error, w1)"
  then show "request_legacy fetch legacy resource options e = (Inl error, e\<lparr>world := w1\<rparr>)"
    by (simp add: request_legacy_def Let_def)
next
  assume "request_try fetch fw
      (case opt_retryOnFail options of Some b \<Rightarrow> b | None \<Rightarrow> retryOnFail fw)
      resource options e = (Inl error, e3)"
  then show "request fetch fw resource options e =
        (Inl error, console_error (Labelled ''Request failed:'' error) e3)"
    by (simp add: request_def Let_def)
qed

theorem failure_recovery_scan_witness:
  "fst (request_legacy (always (Inl (TypeError ''Failed to fetch'')))
          ((constructor_legacy no_config :: unit LegacyFetchWrapper)
             \<lparr>responseInterceptors :=
                [\<lparr>fulfilled = Some (\<lambda>r w. (Inr r, w)), rejected = None\<rparr>,
                 \<lparr>fulfilled = None,
                  rejected = Some (\<lambda>error w. (Inr (response 200 [(''x-recovered'', message error)]), w))\<rparr>,
                 \<lparr>fulfilled = None, rejected = Some (\<lambda>error w. (Inl (Error ''never called''), w))\<rparr>]\<rparr>)
          ''/a'' no_options (fresh ())) = Inr (response 200 [(''x-recovered'', ''Request timed out'')]) \<and>
   fst (request_legacy (always (Inl (TypeError ''Failed to fetch'')))
          (constructor_legacy no_config :: unit LegacyFetchWrapper)
          ''/a'' no_options (fresh ())) = Inl (Error ''Request timed out'') \<and>
   fst (request_legacy (always (Inr (response 200 [])))
          ((constructor_legacy no_config :: unit LegacyFetchWrapper)
             \<lparr>responseInterceptors :=
                [\<lparr>fulfilled = None, rejected = Some (\<lambda>error w. (Inr (response 200 []), w))\<rparr>],
              requestInterceptors :=
                [\<lparr>fulfilled = Some (\<lambda>options w. (Inl (Error ''bad options''), w)),
                  rejected = None\<rparr>]\<rparr>)
          ''/a'' no_options (fresh ())) = Inl (Error ''bad options'') \<and>
   fst (request (always (Inl (TypeError ''Failed to fetch'')))
          ((constructor no_config :: (Response, unit) FetchWrapper)
             \<lparr>interceptors_response :=
                use None (Some (\<lambda>error w. (Inr (response 200 []), w))) \<lparr>handlers = []\<rparr>\<rparr>)
          ''/a'' no_options (fresh ())) = Inl (Error ''Request timed out'')"
proof -
  let ?fail = "always (Inl (TypeError ''Failed to fetch'')) :: unit transport"
  let ?h0 = "\<lparr>fulfilled = Some (\<lambda>(r :: Response) (w :: unit). (Inr r :: error + Response, w)),
              rejected = None :: (error \<Rightarrow> unit \<Rightarrow> (error + Response) \<times> unit) option\<rparr>"
  let ?r = "\<lambda>error (w :: unit). (Inr (response 200 [(''x-recovered'', message error)]) :: error + Response, w)"
  let ?h1 = "\<lparr>fulfilled = None :: (Response \<Rightarrow> unit \<Rightarrow> (error + Response) \<times> unit) option,
              rejected = Some ?r\<rparr>"
  let ?h2 = "\<lparr>fulfilled = None :: (Response \<Rightarrow> unit \<Rightarrow> (error + Response) \<times> unit) option,
              rejected = Some (\<lambda>error (w :: unit). (Inl (Error ''never called'') :: error + Response, w))\<rparr>"
  let ?plain = "constructor_legacy no_config :: unit LegacyFetchWrapper"
  let ?legacy = "?plain\<lparr>responseInterceptors := [?h0, ?h1, ?h2]\<rparr>"
  let ?blocked = "?plain
             \<lparr>responseInterceptors :=
                [\<lparr>fulfilled = None, rejected = Some (\<lambda>error w. (Inr (response 200 []), w))\<rparr>],
              requestInterceptors :=
                [\<lparr>fulfilled = Some (\<lambda>options w. (Inl (Error ''bad options''), w)),
                  rejected = None\<rparr>]\<rparr>"
  let ?fw = "(constructor no_config :: (Response, unit) FetchWrapper)
             \<lparr>interceptors_response :=
                use None (Some (\<lambda>error w. (Inr (response 200 []), w))) \<lparr>handlers = []\<rparr>\<rparr>"
  let ?timed_out = "Error ''Request timed out''"
  let ?attempted = "\<lambda>legacy. request_try_legacy ?fail legacy
      (case opt_retryOnFail no_options of Some b \<Rightarrow> b | None \<Rightarrow> retryOnFail legacy)
      ''/a'' no_options ((fresh ())\<lparr>world := ()\<rparr>)"
  let ?attempt3 = "request_try ?fail ?fw
      (case opt_retryOnFail no_options of Some b \<Rightarrow> b | None \<Rightarrow> retryOnFail ?fw)
      ''/a'' no_options (fresh ())"
  have pre: "applyInterceptors no_options (requestInterceptors ?legacy) (world (fresh ())) =
      (Inr no_options, ())"
    "applyInterceptors no_options (requestInterceptors ?plain) (world (fresh ())) =
      (Inr no_options, ())"
    by (simp_all add: constructor_legacy_def)
  have "fst (?attempted ?legacy) = Inl ?timed_out" by code_simp
  then have try1: "?attempted ?legacy = (Inl ?timed_out, snd (?attempted ?legacy))"
    by (metis prod.collapse)
  have "fst (?attempted ?plain) = Inl ?timed_out" by code_simp
  then have try2: "?attempted ?plain = (Inl ?timed_out, snd (?attempted ?plain))"
    by (metis prod.collapse)
  have "fst ?attempt3 = Inl ?timed_out" by code_simp
  then have try3: "?attempt3 = (Inl ?timed_out, snd ?attempt3)"
    by (metis prod.collapse)
  have split: "responseInterceptors ?legacy = [?h0] @ ?h1 # [?h2] \<and>
      (\<forall>p \<in> set [?h0]. rejected p = None) \<and> rejected ?h1 = Some ?r"
    by simp
  have none: "\<forall>h \<in> set (responseInterceptors ?plain). rejected h = None"
    by (simp add: constructor_legacy_def)
  have blocked: "applyInterceptors no_options (requestInterceptors ?blocked) (world (fresh ())) =
      (Inl (Error ''bad options''), ())"
    by simp
  note t1 = failure_recovery_scan [where options = no_options and legacy = ?legacy
      and e = "fresh ()" and ?options1.0 = no_options and ?w1.0 = "()" and fetch = ?fail
      and resource = "''/a''" and error = ?timed_out and ?e2.0 = "snd (?attempted ?legacy)"
      and fw = ?fw and ?e3.0 = "snd ?attempt3"]
  note t2 = failure_recovery_scan [where options = no_options and legacy = ?plain
      and e = "fresh ()" and ?options1.0 = no_options and ?w1.0 = "()" and fetch = ?fail
      and resource = "''/a''" and error = ?timed_out and ?e2.0 = "snd (?attempted ?plain)"
      and fw = ?fw and ?e3.0 = "snd ?attempt3"]
  note t3 = failure_recovery_scan [where options = no_options and legacy = ?blocked
      and e = "fresh ()" and ?w1.0 = "()" and fetch = "always (Inr (response 200 []))"
      and resource = "''/a''" and error = "Error ''bad options''"
      and fw = ?fw and ?e3.0 = "snd ?attempt3"]
  have 1: "request_legacy ?fail ?legacy ''/a'' no_options (fresh ()) =
      (case ?r ?timed_out (world (snd (?attempted ?legacy))) of
         (Inr v, w) \<Rightarrow> (Inr v, (snd (?attempted ?legacy))\<lparr>world := w\<rparr>)
       | (Inl newError, w) \<Rightarrow>
           (Inl newError, console_error (Thrown newError) ((snd (?attempted ?legacy))\<lparr>world := w\<rparr>)))"
    using t1 [THEN conjunct1] pre(1) try1 split by blast
  have 2: "request_legacy ?fail ?plain ''/a'' no_options (fresh ()) =
      (Inl ?timed_out, snd (?attempted ?plain))"
    using t2 [THEN conjunct1] pre(2) try2 none by blast
  have 3: "request_legacy (always (Inr (response 200 []))) ?blocked ''/a'' no_options (fresh ()) =
      (Inl (Error ''bad options''), (fresh ())\<lparr>world := ()\<rparr>)"
    using t3 [THEN conjunct2, THEN conjunct1] blocked by blast
  have 4: "request ?fail ?fw ''/a'' no_options (fresh ()) =
      (Inl ?timed_out, console_error (Labelled ''Request failed:'' ?timed_out) (snd ?attempt3))"
    using t1 [THEN conjunct2, THEN conjunct2] try3 by blast
  show ?thesis
    unfolding 1 2 3 4 by simp
qed

text \<open>
  C4 as stated fails twice. On \<^verbatim>\<open>src/index.ts\<close> a registered \<^verbatim>\<open>rejected\<close>
  handler that would return a response is not asked when the transport fails: the call
  rejects. On the legacy wrapper the same happens when a request interceptor raises.
\<close>

theorem failure_recovery_scan_counterexample:
  "fst (request (always (Inl (TypeError ''Failed to fetch'')))
          ((constructor no_config :: (Response, unit) FetchWrapper)
             \<lparr>interceptors_response :=
                use None (Some (\<lambda>error w. (Inr (response 200 []), w))) \<lparr>handlers = []\<rparr>\<rparr>)
          ''/a'' no_options (fresh ())) = Inl (Error ''Request timed out'') \<and>
   fst (request_legacy (always (Inr (response 200 [])))
          ((constructor_legacy no_config :: unit LegacyFetchWrapper)
             \<lparr>responseInterceptors :=
                [\<lparr>fulfilled = None, rejected = Some (\<lambda>error w. (Inr (response 200 []), w))\<rparr>],
              requestInterceptors :=
                [\<lparr>fulfilled = Some (\<lambda>options w. (Inl (Error ''bad options''), w)),
                  rejected = None\<rparr>]\<rparr>)
          ''/a'' no_options (fresh ())) = Inl (Error ''bad options'')"
  by code_simp

text \<open>
  C9. Take a transport whose outcome depends on the resource and on the options apart
  from \<open>signal\<close> only, not on its state, and handlers whose outcome does not depend on
  the world (request handlers may pass the signal on, but not read it). Then two calls of
  \<^verbatim>\<open>request\<close> on the same instance with the same resource and with options that
  differ at most in \<open>signal\<close> give the same result, whatever the runtime each starts
  in: in particular the second call may start in the runtime the first one left and get the
  options object the first one wrote its signal to. What an attempt leaves on the options
  object is the signal of its own fresh controller, and that is what the transport gets.
\<close>

theorem request_is_repeatable:
  assumes tr: "\<forall>w w' u opts opts'. opts\<lparr>signal := None\<rparr> = opts'\<lparr>signal := None\<rparr> \<longrightarrow>
                 fst (fetch w u opts) = fst (fetch w' u opts')"
    and req: "\<forall>h \<in> set (handlers (interceptors_request fw)).
      (\<forall>f. fulfilled h = Some f \<longrightarrow>
         (\<forall>u opts opts' w w'. opts\<lparr>signal := None\<rparr> = opts'\<lparr>signal := None\<rparr> \<longrightarrow>
            rel_sum (=) (\<lambda>p q. fst p = fst q \<and> (snd p)\<lparr>signal := None\<rparr> = (snd q)\<lparr>signal := None\<rparr>)
              (fst (f (u, opts) w)) (fst (f (u, opts') w')))) \<and>
      (\<forall>r. rejected h = Some r \<longrightarrow> (\<forall>error w w'. fst (r error w) = fst (r error w')))"
    and resp: "\<forall>h \<in> set (handlers (interceptors_response fw)).
      (\<forall>f. fulfilled h = Some f \<longrightarrow> (\<forall>v w w'. fst (f v w) = fst (f v w'))) \<and>
      (\<forall>r. rejected h = Some r \<longrightarrow> (\<forall>error w w'. fst (r error w) = fst (r error w')))"
    and eq: "options\<lparr>signal := None\<rparr> = options'\<lparr>signal := None\<rparr>"
  shows "fst (request fetch fw resource options' e') = fst (request fetch fw resource options e) \<and>
         fst (snd (fetchWithTimeout fetch fw resource options e)) =
           options\<lparr>signal := Some (next_timer e)\<rparr> \<and>
         last (fetched (snd (snd (fetchWithTimeout fetch fw resource options e)))) =
           (finalResource fw resource options, options\<lparr>signal := Some (next_timer e)\<rparr>)"
proof -
  let ?retry = "case opt_retryOnFail options of Some b \<Rightarrow> b | None \<Rightarrow> retryOnFail fw"
  have retry: "(case opt_retryOnFail options' of Some b \<Rightarrow> b | None \<Rightarrow> retryOnFail fw) = ?retry"
    using same_but_signal_fields(4) [OF eq] by simp
  obtain x w1 where q: "runHandlers (interceptors_request fw) (resource, options) (world e) = (x, w1)"
    by (cases "runHandlers (interceptors_request fw) (resource, options) (world e)") auto
  obtain x' w1' where
    q': "runHandlers (interceptors_request fw) (resource, options') (world e') = (x', w1')"
    by (cases "runHandlers (interceptors_request fw) (resource, options') (world e')") auto
  have rel: "rel_sum (=) (\<lambda>p q. fst p = fst q \<and> (snd p)\<lparr>signal := None\<rparr> = (snd q)\<lparr>signal := None\<rparr>) x x'"
    using run_same_but_signal [OF req eq, of resource "world e" "world e'"] q q'
    by (simp add: runHandlers_def)
  have "fst (request_try fetch fw ?retry resource options' e') =
        fst (request_try fetch fw ?retry resource options e)"
  proof (cases x)
    case (Inl error)
    then have "x' = Inl error" using rel by (cases x') auto
    then show ?thesis using Inl q q' by (simp add: request_try_def)
  next
    case (Inr p)
    then obtain p' where x': "x' = Inr p'" and
      pp: "fst p = fst p'" "(snd p)\<lparr>signal := None\<rparr> = (snd p')\<lparr>signal := None\<rparr>"
      using rel by (cases x') auto
    obtain u o1 where p: "p = (u, o1)" by (cases p) auto
    obtain o1' where p': "p' = (u, o1')" using pp(1) p by (cases p') auto
    have oo: "o1\<lparr>signal := None\<rparr> = o1'\<lparr>signal := None\<rparr>" using pp(2) p p' by simp
    let ?d = "if \<not> ?retry then fetchWithTimeout fetch fw u o1 (e\<lparr>world := w1\<rparr>)
              else retryFetch fetch fw u o1 (e\<lparr>world := w1\<rparr>)"
    let ?d' = "if \<not> ?retry then fetchWithTimeout fetch fw u o1' (e'\<lparr>world := w1'\<rparr>)
              else retryFetch fetch fw u o1' (e'\<lparr>world := w1'\<rparr>)"
    have dd: "fst ?d = fst ?d'"
      using fetchWithTimeout_same_but_signal(1) [OF tr oo, of fw u "e\<lparr>world := w1\<rparr>" "e'\<lparr>world := w1'\<rparr>"]
        retryFetch_same_but_signal [OF tr oo, of fw u "e\<lparr>world := w1\<rparr>" "e'\<lparr>world := w1'\<rparr>"]
      by simp
    obtain y o2 e2 where d: "?d = (y, o2, e2)" by (cases ?d) auto
    obtain y' o2' e2' where d': "?d' = (y', o2', e2')" by (cases ?d') auto
    have y: "y' = y" using dd d d' by simp
    show ?thesis
    proof (cases y)
      case (Inl error)
      then show ?thesis
        using q q' Inr x' p p' d d' y by (simp add: request_try_def)
    next
      case (Inr response)
      have "fst (runHandlers (interceptors_response fw) response (world e2')) =
            fst (runHandlers (interceptors_response fw) response (world e2))"
        using run_pure [OF resp] by (simp add: runHandlers_def)
      then show ?thesis
        using q q' \<open>x = Inr p\<close> x' p p' d d' y Inr
        by (auto simp add: request_try_def split: prod.splits)
    qed
  qed
  then have 1: "fst (request fetch fw resource options' e') = fst (request fetch fw resource options e)"
    unfolding request_result retry .
  have 2: "fst (snd (fetchWithTimeout fetch fw resource options e)) =
           options\<lparr>signal := Some (next_timer e)\<rparr>"
    by (rule fetchWithTimeout_options)
  have 3: "last (fetched (snd (snd (fetchWithTimeout fetch fw resource options e)))) =
           (finalResource fw resource options, options\<lparr>signal := Some (next_timer e)\<rparr>)"
    unfolding fetchWithTimeout_fetched by (rule last_snoc)
  show ?thesis using 1 2 3 by (intro conjI)
qed

theorem request_is_repeatable_witness:
  "fst (request
          (\<lambda>w u opts. (Inr (response (if http_method opts = Some ''GET'' then 200 else 405) []), Suc w))
          ((constructor no_config :: (unit, nat) FetchWrapper)
             \<lparr>interceptors_request :=
                use (Some (\<lambda>p w. (Inr (fst p, (snd p)\<lparr>http_method := Some ''GET''\<rparr>), Suc w))) None
                  \<lparr>handlers = []\<rparr>,
              interceptors_response :=
                use (Some (\<lambda>r w. (Inr (r\<lparr>body := ''seen''\<rparr>), Suc w))) None \<lparr>handlers = []\<rparr>\<rparr>)
          ''/a'' (no_options\<lparr>signal := Some 0\<rparr>)
          (snd (request
             (\<lambda>w u opts. (Inr (response (if http_method opts = Some ''GET'' then 200 else 405) []), Suc w))
             ((constructor no_config :: (unit, nat) FetchWrapper)
                \<lparr>interceptors_request :=
                   use (Some (\<lambda>p w. (Inr (fst p, (snd p)\<lparr>http_method := Some ''GET''\<rparr>), Suc w))) None
                     \<lparr>handlers = []\<rparr>,
                 interceptors_response :=
                   use (Some (\<lambda>r w. (Inr (r\<lparr>body := ''seen''\<rparr>), Suc w))) None \<lparr>handlers = []\<rparr>\<rparr>)
             ''/a'' no_options (fresh 0)))) =
   Inr ((response 200 [])\<lparr>body := ''seen''\<rparr>)"
proof -
  let ?fetch = "\<lambda>(w :: nat) (u :: string) (opts :: RequestOptions).
      (Inr (response (if http_method opts = Some ''GET'' then 200 else 405) []) :: error + Response, Suc w)"
  let ?fw = "(constructor no_config :: (unit, nat) FetchWrapper)
             \<lparr>interceptors_request :=
                use (Some (\<lambda>p w. (Inr (fst p, (snd p)\<lparr>http_method := Some ''GET''\<rparr>), Suc w))) None
                  \<lparr>handlers = []\<rparr>,
              interceptors_response :=
                use (Some (\<lambda>r w. (Inr (r\<lparr>body := ''seen''\<rparr>), Suc w))) None \<lparr>handlers = []\<rparr>\<rparr>"
  have same: "http_method opts = http_method opts' \<and>
      (opts\<lparr>http_method := m\<rparr>)\<lparr>signal := None\<rparr> = (opts'\<lparr>http_method := m\<rparr>)\<lparr>signal := None\<rparr>"
    if "opts\<lparr>signal := None\<rparr> = opts'\<lparr>signal := None\<rparr>" for opts opts' :: RequestOptions and m
    using that by (cases opts; cases opts'; simp)
  have h1: "\<forall>w w' u opts opts'. opts\<lparr>signal := None\<rparr> = opts'\<lparr>signal := None\<rparr> \<longrightarrow>
                 fst (?fetch w u opts) = fst (?fetch w' u opts')"
  proof -
    have aux: "fst (?fetch w u opts) = fst (?fetch w' u opts')"
      if "opts\<lparr>signal := None\<rparr> = opts'\<lparr>signal := None\<rparr>"
      for w w' :: nat and u :: string and opts opts' :: RequestOptions
      using same [OF that, THEN conjunct1] by simp
    show ?thesis by (intro allI impI) (rule aux, assumption)
  qed
  have h2: "\<forall>h \<in> set (handlers (interceptors_request ?fw)).
      (\<forall>f. fulfilled h = Some f \<longrightarrow>
         (\<forall>u opts opts' w w'. opts\<lparr>signal := None\<rparr> = opts'\<lparr>signal := None\<rparr> \<longrightarrow>
            rel_sum (=) (\<lambda>p q. fst p = fst q \<and> (snd p)\<lparr>signal := None\<rparr> = (snd q)\<lparr>signal := None\<rparr>)
              (fst (f (u, opts) w)) (fst (f (u, opts') w')))) \<and>
      (\<forall>r. rejected h = Some r \<longrightarrow> (\<forall>error w w'. fst (r error w) = fst (r error w')))"
  proof -
    let ?f = "\<lambda>(p :: string \<times> RequestOptions) (w :: nat).
        (Inr (fst p, (snd p)\<lparr>http_method := Some ''GET''\<rparr>) :: error + string \<times> RequestOptions, Suc w)"
    have hs: "handlers (interceptors_request ?fw) = [\<lparr>fulfilled = Some ?f, rejected = None\<rparr>]"
      by (simp add: use_def)
    have f: "rel_sum (=) (\<lambda>p q. fst p = fst q \<and> (snd p)\<lparr>signal := None\<rparr> = (snd q)\<lparr>signal := None\<rparr>)
              (fst (?f (u, opts) w)) (fst (?f (u, opts') w'))"
      if "opts\<lparr>signal := None\<rparr> = opts'\<lparr>signal := None\<rparr>" for u opts opts' w w'
      using same [OF that, THEN conjunct2, of "Some ''GET''"] by simp
    show ?thesis
    proof (intro ballI conjI allI impI)
      fix h f' u w w' and opts opts' :: RequestOptions
      assume "h \<in> set (handlers (interceptors_request ?fw))" and "fulfilled h = Some f'"
        and eq: "opts\<lparr>signal := None\<rparr> = opts'\<lparr>signal := None\<rparr>"
      then have "f' = ?f" unfolding hs by simp
      then show "rel_sum (=) (\<lambda>p q. fst p = fst q \<and> (snd p)\<lparr>signal := None\<rparr> = (snd q)\<lparr>signal := None\<rparr>)
              (fst (f' (u, opts) w)) (fst (f' (u, opts') w'))"
        using f [OF eq, of u w w'] by simp
    next
      fix h r error w w'
      assume "h \<in> set (handlers (interceptors_request ?fw))" and "rejected h = Some r"
      then have False unfolding hs by simp
      then show "fst (r error w) = fst (r error w')" ..
    qed
  qed
  have h3: "\<forall>h \<in> set (handlers (interceptors_response ?fw)).
      (\<forall>f. fulfilled h = Some f \<longrightarrow> (\<forall>v w w'. fst (f v w) = fst (f v w'))) \<and>
      (\<forall>r. rejected h = Some r \<longrightarrow> (\<forall>error w w'. fst (r error w) = fst (r error w')))"
    by (simp add: use_def)
  have h4: "no_options\<lparr>signal := None\<rparr> = (no_options\<lparr>signal := Some 0\<rparr>)\<lparr>signal := None\<rparr>"
    by simp
  have first: "fst (request ?fetch ?fw ''/a'' no_options (fresh 0)) =
      Inr ((response 200 [])\<lparr>body := ''seen''\<rparr>)"
    by code_simp
  have second: "fst (request ?fetch ?fw ''/a'' (no_options\<lparr>signal := Some 0\<rparr>)
                      (snd (request ?fetch ?fw ''/a'' no_options (fresh 0)))) =
                fst (request ?fetch ?fw ''/a'' no_options (fresh 0))"
    by (rule request_is_repeatable [OF h1 h2 h3 h4, THEN conjunct1])
  show ?thesis
    using second first by (rule trans)
qed

end
